theory Spec2Isabelle
  imports
    Main
    "HOL-Library.AList"
    "HOL-Library.Char_ord"
    "HOL-Library.List_Lexorder"
    "HOL-Library.Product_Lexorder"
begin

section \<open>Text, cells and tables\<close>

text \<open>
  The program is Python on top of pandas. A Python string is modelled as a \<open>string\<close>
  (a list of 8-bit characters, read as UTF-8); \<open>str.strip\<close> and \<open>str.lower\<close> are
  modelled on the ASCII range, where Python's white space is the characters 9 to 13 and
  28 to 32 and the upper-case letters are \<open>A\<close> to \<open>Z\<close>. The byte-wise lexicographic order
  of UTF-8 text is Python's order on strings (by code point).
\<close>

definition is_space :: "char \<Rightarrow> bool" where
  "is_space c = (let n = (of_char c :: nat) in (9 \<le> n \<and> n \<le> 13) \<or> (28 \<le> n \<and> n \<le> 32))"

definition strip :: "string \<Rightarrow> string" where
  "strip s = rev (dropWhile is_space (rev (dropWhile is_space s)))"

definition lower_char :: "char \<Rightarrow> char" where
  "lower_char c = (let n = (of_char c :: nat) in if 65 \<le> n \<and> n \<le> 90 then char_of (n + 32) else c)"

definition lower :: "string \<Rightarrow> string" where
  "lower s = map lower_char s"

text \<open>Python's \<open>str\<close> of an integer: decimal digits, with a minus sign when negative.\<close>

fun str_nat :: "nat \<Rightarrow> string" where
  "str_nat n = (if n < 10 then [char_of (48 + n)] else str_nat (n div 10) @ [char_of (48 + n mod 10)])"

declare str_nat.simps [simp del]

definition str_int :: "int \<Rightarrow> string" where
  "str_int i = (if i < 0 then CHR ''-'' # str_nat (nat (- i)) else str_nat (nat i))"

text \<open>
  A cell of a table holds text, a missing value (the float \<open>nan\<close> that the loaders put
  where a field is empty) or an integer. Other floats and timestamps are not modelled.
\<close>

datatype cell = Str string | NaN | IntV int

text \<open>
  \<open>Series.astype(str)\<close>, as pandas 1.x and 2.x do it on the object and numeric columns
  the loaders produce: every element goes through Python's \<open>str\<close>, so a missing
  value becomes the text \<open>nan\<close>.
\<close>

fun astype_str :: "cell \<Rightarrow> string" where
  "astype_str (Str s) = s"
| "astype_str NaN = ''nan''"
| "astype_str (IntV i) = str_int i"

text \<open>\<open>Series.str.lower\<close>: an element that is not text becomes a missing value.\<close>

fun str_lower :: "cell \<Rightarrow> cell" where
  "str_lower (Str s) = Str (lower s)"
| "str_lower _ = NaN"

text \<open>
  A DataFrame: the column labels in order (pandas allows a label to occur twice), and the
  rows in order, each with its index label and its cells, one per column.
\<close>

record dataframe =
  columns :: "string list"
  rows :: "(nat \<times> cell list) list"

datatype error =
    ValueError string
  | AttributeError string
  | KeyError string
  | Stop string

text \<open>The cell of a row under the first column labelled \<open>k\<close>.\<close>

definition cell_of :: "string list \<Rightarrow> string \<Rightarrow> cell list \<Rightarrow> cell option" where
  "cell_of cols k r = map_of (zip cols r) k"

text \<open>All cells of a row under the columns labelled \<open>k\<close>.\<close>

definition cells_named :: "string list \<Rightarrow> string \<Rightarrow> cell list \<Rightarrow> cell list" where
  "cells_named cols k r = map snd (filter (\<lambda>(n, v). n = k) (zip cols r))"

text \<open>\<open>df.rename(columns={old: new})\<close>: every column labelled \<open>old\<close> is relabelled.\<close>

definition rename :: "string \<Rightarrow> string \<Rightarrow> dataframe \<Rightarrow> dataframe" where
  "rename old new df = df\<lparr>columns := map (\<lambda>n. if n = old then new else n) (columns df)\<rparr>"

text \<open>\<open>df[k] = df[k].map(f)\<close> for an element-wise \<open>f\<close>: the cells under \<open>k\<close> are replaced.\<close>

fun map_cell :: "string \<Rightarrow> (cell \<Rightarrow> cell) \<Rightarrow> string list \<Rightarrow> cell list \<Rightarrow> cell list" where
  "map_cell k f (n # ns) (v # vs) = (if n = k then f v else v) # map_cell k f ns vs"
| "map_cell k f _ vs = vs"

definition assign_map :: "string \<Rightarrow> (cell \<Rightarrow> cell) \<Rightarrow> dataframe \<Rightarrow> dataframe" where
  "assign_map k f df = df\<lparr>rows := map (\<lambda>(l, r). (l, map_cell k f (columns df) r)) (rows df)\<rparr>"

text \<open>\<open>df[df[k] != ""]\<close>: the rows whose cell under \<open>k\<close> is not the empty text.\<close>

definition drop_empty :: "string \<Rightarrow> dataframe \<Rightarrow> dataframe" where
  "drop_empty k df = df\<lparr>rows := filter (\<lambda>(l, r). cell_of (columns df) k r \<noteq> Some (Str [])) (rows df)\<rparr>"

text \<open>
  \<open>drop_duplicates\<close> keeps the first row of every key, in row order: a row is dropped
  when its key has been seen.
\<close>

fun keep_first :: "('a \<Rightarrow> 'k) \<Rightarrow> 'k list \<Rightarrow> 'a list \<Rightarrow> 'a list" where
  "keep_first key seen [] = []"
| "keep_first key seen (r # rs) =
     (if key r \<in> set seen then keep_first key seen rs else r # keep_first key (key r # seen) rs)"

definition drop_duplicates :: "string \<Rightarrow> dataframe \<Rightarrow> dataframe" where
  "drop_duplicates k df = df\<lparr>rows := keep_first (\<lambda>(l, r). cells_named (columns df) k r) [] (rows df)\<rparr>"

section \<open>The source normalizer: \<open>limpiar_dataframe\<close>\<close>

text \<open>
  Python passes tables by reference, and \<open>df_clean[col] = ...\<close> writes into the table it
  is applied to. The objects live in a heap (a list, an address is a position); \<open>copy\<close>,
  \<open>rename\<close>, the row selection and \<open>drop_duplicates\<close> allocate a new table, the two
  column assignments overwrite the table at an address.

  After the renaming the label \<open>columna_estandar\<close> may occur twice (the table already had
  a column of that name). Then \<open>df_clean[columna_estandar]\<close> is a DataFrame, not a
  Series, and its \<open>.str\<close> raises \<open>AttributeError\<close>.
\<close>

type_synonym heap = "dataframe list"

definition alloc :: "dataframe \<Rightarrow> heap \<Rightarrow> nat \<times> heap" where
  "alloc d h = (length h, h @ [d])"

definition missing_column_message :: "string \<Rightarrow> string" where
  "missing_column_message c = ''La columna '' @ [CHR 0x27] @ c @ [CHR 0x27] @ '' no existe en el archivo.''"

definition limpiar_dataframe_heap :: "heap \<Rightarrow> nat \<Rightarrow> string \<Rightarrow> string \<Rightarrow> (error + nat) \<times> heap" where
  "limpiar_dataframe_heap h df columna_especie_original columna_estandar =
     (if columna_especie_original \<notin> set (columns (h ! df))
      then (Inl (ValueError (missing_column_message columna_especie_original)), h)
      else
        let (copia, h1) = alloc (h ! df) h;
            (df_clean, h2) = alloc (rename columna_especie_original columna_estandar (h1 ! copia)) h1
        in if count_list (columns (h2 ! df_clean)) columna_estandar \<noteq> 1
           then (Inl (AttributeError ''str''), h2)
           else
             let h3 = h2[df_clean := assign_map columna_estandar (\<lambda>v. Str (strip (astype_str v))) (h2 ! df_clean)];
                 (df_clean, h4) = alloc (drop_empty columna_estandar (h3 ! df_clean)) h3;
                 h5 = h4[df_clean := assign_map columna_estandar str_lower (h4 ! df_clean)];
                 (df_clean, h6) = alloc (drop_duplicates columna_estandar (h5 ! df_clean)) h5
             in (Inr df_clean, h6))"

text \<open>The function on values: the table it returns when called on a table \<open>df\<close>.\<close>

definition limpiar_dataframe :: "dataframe \<Rightarrow> string \<Rightarrow> string \<Rightarrow> error + dataframe" where
  "limpiar_dataframe df columna_especie_original columna_estandar =
     (case limpiar_dataframe_heap [df] 0 columna_especie_original columna_estandar of
        (Inl e, h) \<Rightarrow> Inl e
      | (Inr a, h) \<Rightarrow> Inr (h ! a))"

section \<open>The reconciliation engine: \<open>construir_interseccion\<close>\<close>

text \<open>
  A Python dictionary is an association list in insertion order; \<open>d[k] = v\<close> is
  \<open>AList.update\<close>, which overwrites the value of a key that is present, in place, and
  appends a new key. A Python \<open>set\<close> is a list without repetitions; the order in which
  Python iterates a set is not specified, and the model takes the order of first
  insertion.
\<close>

definition dropna :: "cell list \<Rightarrow> cell list" where
  "dropna vs = filter (\<lambda>v. v \<noteq> NaN) vs"

definition unique :: "cell list \<Rightarrow> cell list" where
  "unique vs = keep_first (\<lambda>v. v) [] vs"

text \<open>The values of the column labelled \<open>k\<close>, in row order.\<close>

definition column_values :: "dataframe \<Rightarrow> string \<Rightarrow> cell list" where
  "column_values df k = List.map_filter (\<lambda>(l, r). cell_of (columns df) k r) (rows df)"

text \<open>
  \<open>set(df[columna_estandar].dropna().unique())\<close>. With no column of that label the
  selection raises \<open>KeyError\<close>; with two of them it is a DataFrame, which has no
  \<open>unique\<close>.
\<close>

definition especies_de :: "dataframe \<Rightarrow> string \<Rightarrow> error + cell list" where
  "especies_de df columna_estandar =
     (if columna_estandar \<notin> set (columns df) then Inl (KeyError columna_estandar)
      else if count_list (columns df) columna_estandar \<noteq> 1 then Inl (AttributeError ''unique'')
      else Inr (unique (dropna (column_values df columna_estandar))))"

fun species_sets_de ::
  "(string \<times> dataframe) list \<Rightarrow> string \<Rightarrow> (string \<times> cell list) list \<Rightarrow> error + (string \<times> cell list) list" where
  "species_sets_de [] columna_estandar species_sets = Inr species_sets"
| "species_sets_de ((nombre_fuente, df) # resto) columna_estandar species_sets =
     (case especies_de df columna_estandar of
        Inl e \<Rightarrow> Inl e
      | Inr especies \<Rightarrow> species_sets_de resto columna_estandar (AList.update nombre_fuente especies species_sets))"

text \<open>\<open>all_species |= conj\<close> for every set of the dictionary.\<close>

definition union_all :: "cell list list \<Rightarrow> cell list" where
  "union_all conjs = fold (\<lambda>conj all_species. all_species @ filter (\<lambda>e. e \<notin> set all_species) (unique conj)) conjs []"

definition presencia_de :: "(string \<times> cell list) list \<Rightarrow> cell \<Rightarrow> (string \<times> bool) list" where
  "presencia_de species_sets especie = map (\<lambda>(nombre_fuente, conj). (nombre_fuente, especie \<in> set conj)) species_sets"

text \<open>
  The row of one species: the dictionary literal with the species and the count, then one
  assignment per source. A source whose name is \<open>columna_estandar\<close> or \<open>num_fuentes\<close>
  overwrites that entry.
\<close>

definition fila_de :: "string \<Rightarrow> cell \<Rightarrow> nat \<Rightarrow> (string \<times> bool) list \<Rightarrow> (string \<times> cell) list" where
  "fila_de columna_estandar especie num_fuentes presencia =
     fold (\<lambda>(nombre_fuente, presente) fila. AList.update nombre_fuente (IntV (if presente then 1 else 0)) fila)
       presencia
       (AList.update ''num_fuentes'' (IntV (int num_fuentes)) (AList.update columna_estandar especie []))"

definition filas_de :: "string \<Rightarrow> (string \<times> cell list) list \<Rightarrow> cell list \<Rightarrow> (string \<times> cell) list list" where
  "filas_de columna_estandar species_sets all_species =
     concat (map (\<lambda>especie.
        let presencia = presencia_de species_sets especie;
            num_fuentes = length (filter snd presencia)
        in if num_fuentes \<ge> 2 then [fila_de columna_estandar especie num_fuentes presencia] else [])
      all_species)"

text \<open>
  \<open>pd.DataFrame(filas)\<close> of a list of dictionaries: the columns are the keys in the order
  of their first appearance, a key that a row lacks gives a missing value, the index is
  \<open>0, 1, ...\<close>. Of the empty list it is the table with no column and no row.
\<close>

definition DataFrame :: "(string \<times> cell) list list \<Rightarrow> dataframe" where
  "DataFrame filas =
     (let cols = keep_first (\<lambda>k. k) [] (concat (map (map fst) filas))
      in \<lparr>columns = cols,
          rows = zip [0..<length filas]
                   (map (\<lambda>fila. map (\<lambda>c. case map_of fila c of None \<Rightarrow> NaN | Some v \<Rightarrow> v) cols) filas)\<rparr>)"

text \<open>
  \<open>sort_values(by=["num_fuentes", columna_estandar], ascending=[False, True])\<close> and
  \<open>reset_index(drop=True)\<close>. The rows are ordered by a key: the count, negated, then the
  cell of the species column, where integers are ordered by value, texts
  lexicographically and a missing value comes last. Every row built by \<open>filas_de\<close> holds
  an integer under \<open>num_fuentes\<close>, and a column built here holds cells of one kind.
\<close>

fun cell_key :: "cell option \<Rightarrow> nat \<times> int \<times> string" where
  "cell_key (Some (IntV i)) = (0, i, [])"
| "cell_key (Some (Str s)) = (1, 0, s)"
| "cell_key _ = (2, 0, [])"

fun count_key :: "cell option \<Rightarrow> int" where
  "count_key (Some (IntV i)) = - i"
| "count_key _ = 0"

definition sort_values :: "string \<Rightarrow> dataframe \<Rightarrow> dataframe" where
  "sort_values columna_estandar df =
     df\<lparr>rows := sort_key (\<lambda>(l, r). (count_key (cell_of (columns df) ''num_fuentes'' r),
                                     cell_key (cell_of (columns df) columna_estandar r))) (rows df)\<rparr>"

definition reset_index :: "dataframe \<Rightarrow> dataframe" where
  "reset_index df = df\<lparr>rows := zip [0..<length (rows df)] (map snd (rows df))\<rparr>"

definition construir_interseccion ::
  "(string \<times> dataframe) list \<Rightarrow> string \<Rightarrow> error + ((string \<times> cell list) list \<times> dataframe)" where
  "construir_interseccion fuentes_limpias columna_estandar =
     (case species_sets_de fuentes_limpias columna_estandar [] of
        Inl e \<Rightarrow> Inl e
      | Inr species_sets \<Rightarrow>
          if species_sets = [] then Inr ([], \<lparr>columns = [columna_estandar], rows = []\<rparr>)
          else
            let all_species = union_all (map snd species_sets);
                filas = filas_de columna_estandar species_sets all_species;
                tabla_interseccion = DataFrame filas
            in if rows tabla_interseccion \<noteq> [] \<and> columns tabla_interseccion \<noteq> []
               then Inr (species_sets, reset_index (sort_values columna_estandar tabla_interseccion))
               else Inr (species_sets, tabla_interseccion))"

section \<open>The application: cleaning per source, reconciliation, enrichment\<close>

definition columna_estandar :: string where
  "columna_estandar = ''scientificName''"

definition default_names :: "string list" where
  "default_names = [''SIB'', ''GBIF'', ''IUCN'']"

text \<open>The name of the source in card \<open>i\<close> (counted from 0).\<close>

definition nombre_base :: "nat \<Rightarrow> string" where
  "nombre_base i = (if i < length default_names then default_names ! i else ''Fuente '' @ str_nat (i + 1))"

text \<open>
  What the session holds for one card: the uploaded file, given as the table the loader
  reads from it (\<open>None\<close> when no file is uploaded), and the two text inputs.
\<close>

record card =
  file_obj :: "dataframe option"
  species_col_input :: string
  extra_col_input :: string

record source =
  name :: string
  df_raw :: dataframe
  species_col :: string
  extra_col :: string

text \<open>The loop over the cards, \<open>i\<close> being the number of the card.\<close>

fun sources_info_desde :: "nat \<Rightarrow> card list \<Rightarrow> source list" where
  "sources_info_desde i [] = []"
| "sources_info_desde i (c # cards) =
     (case file_obj c of
        None \<Rightarrow> []
      | Some df \<Rightarrow> [\<lparr>name = nombre_base i, df_raw = df, species_col = species_col_input c,
                      extra_col = strip (extra_col_input c)\<rparr>])
     @ sources_info_desde (Suc i) cards"

definition sources_info_de :: "card list \<Rightarrow> source list" where
  "sources_info_de cards = sources_info_desde 0 cards"

text \<open>The warning of step 1: the extra column and the source it was not found in.\<close>

datatype aviso = ColumnaExtraNoEncontrada string string

text \<open>
  Step 1, the loop over the sources. The state is the dictionary of cleaned tables, the
  dictionary of extra columns and the warnings shown so far. \<open>st.stop()\<close> and an
  exception of \<open>limpiar_dataframe\<close> end the run.
\<close>

fun limpieza ::
  "source list \<Rightarrow> (string \<times> dataframe) list \<times> (string \<times> string) list \<times> aviso list
     \<Rightarrow> error + ((string \<times> dataframe) list \<times> (string \<times> string) list \<times> aviso list)" where
  "limpieza [] estado = Inr estado"
| "limpieza (src # resto) (fuentes_limpias, extra_cols_map, avisos) =
     (if strip (species_col src) = [] then Inl (Stop (''Debes indicar la columna de especie para '' @ name src @ ''.''))
      else (case limpiar_dataframe (df_raw src) (strip (species_col src)) columna_estandar of
          Inl e \<Rightarrow> Inl e
        | Inr df_clean \<Rightarrow>
            if extra_col src \<noteq> []
            then if extra_col src \<notin> set (columns df_clean)
                 then limpieza resto (AList.update (name src) df_clean fuentes_limpias, extra_cols_map,
                        avisos @ [ColumnaExtraNoEncontrada (extra_col src) (name src)])
                 else limpieza resto (AList.update (name src) df_clean fuentes_limpias,
                        AList.update (name src) (extra_col src) extra_cols_map, avisos)
            else limpieza resto (AList.update (name src) df_clean fuentes_limpias, extra_cols_map, avisos)))"

text \<open>
  \<open>df[[a, b]]\<close>: for every requested label the columns of that label, in the order of the
  request; \<open>KeyError\<close> when a label is missing.
\<close>

definition select_columns :: "string list \<Rightarrow> dataframe \<Rightarrow> error + dataframe" where
  "select_columns ks df =
     (case filter (\<lambda>k. k \<notin> set (columns df)) ks of
        k # _ \<Rightarrow> Inl (KeyError k)
      | [] \<Rightarrow> Inr \<lparr>columns = concat (map (\<lambda>k. filter (\<lambda>n. n = k) (columns df)) ks),
                   rows = map (\<lambda>(l, r). (l, concat (map (\<lambda>k. cells_named (columns df) k r) ks))) (rows df)\<rparr>)"

text \<open>
  \<open>left.merge(right, on=k, how="left")\<close>: \<open>KeyError\<close> when a side has no column \<open>k\<close>,
  \<open>ValueError\<close> when the label \<open>k\<close> is not unique on a side. Every row of the left
  table, in order, is joined with the rows of the right table of the same key (a row of
  missing values when there is none). A label other than \<open>k\<close> that both sides have gets
  the suffixes \<open>_x\<close> and \<open>_y\<close>. The result has a fresh index.
\<close>

definition merge_left :: "dataframe \<Rightarrow> dataframe \<Rightarrow> string \<Rightarrow> error + dataframe" where
  "merge_left left right k =
     (if k \<notin> set (columns left) \<or> k \<notin> set (columns right) then Inl (KeyError k)
      else if count_list (columns left) k \<noteq> 1 \<or> count_list (columns right) k \<noteq> 1
      then Inl (ValueError (''The column label '' @ [CHR 0x27] @ k @ [CHR 0x27] @ '' is not unique.''))
      else
        let otras = filter (\<lambda>n. n \<noteq> k) (columns right);
            izquierda = map (\<lambda>n. if n \<noteq> k \<and> n \<in> set otras then n @ ''_x'' else n) (columns left);
            derecha = map (\<lambda>n. if n \<in> set (columns left) then n @ ''_y'' else n) otras;
            resto = (\<lambda>rr. map snd (filter (\<lambda>(n, v). n \<noteq> k) (zip (columns right) rr)));
            unidas = concat (map (\<lambda>(l, lr).
               case filter (\<lambda>(l', rr). cell_of (columns right) k rr = cell_of (columns left) k lr) (rows right) of
                 [] \<Rightarrow> [lr @ replicate (length derecha) NaN]
               | ms \<Rightarrow> map (\<lambda>(l', rr). lr @ resto rr) ms) (rows left))
        in Inr \<lparr>columns = izquierda @ derecha, rows = zip [0..<length unidas] unidas\<rparr>)"

text \<open>Step 3, the loop over \<open>extra_cols_map\<close>: one merge per source with an extra column.\<close>

fun agregar_columnas_extra ::
  "(string \<times> dataframe) list \<Rightarrow> (string \<times> string) list \<Rightarrow> dataframe \<Rightarrow> error + dataframe" where
  "agregar_columnas_extra fuentes_limpias [] tabla_final = Inr tabla_final"
| "agregar_columnas_extra fuentes_limpias ((nombre_fuente, extra) # resto) tabla_final =
     (case map_of fuentes_limpias nombre_fuente of
        None \<Rightarrow> Inl (KeyError nombre_fuente)
      | Some df \<Rightarrow>
          (case select_columns [columna_estandar, extra] df of
             Inl e \<Rightarrow> Inl e
           | Inr seleccion \<Rightarrow>
               let df_src = drop_duplicates columna_estandar seleccion;
                   nuevo_nombre_col = nombre_fuente @ ''_'' @ extra
               in (case merge_left tabla_final (rename extra nuevo_nombre_col df_src) columna_estandar of
                     Inl e \<Rightarrow> Inl e
                   | Inr unida \<Rightarrow> agregar_columnas_extra fuentes_limpias resto unida)))"

text \<open>
  The run started by the button, up to the final table (steps 1 to 3); the search filter
  and the display are not modelled.
\<close>

definition procesar ::
  "source list \<Rightarrow> error + (aviso list \<times> (string \<times> cell list) list \<times> dataframe)" where
  "procesar sources_info =
     (if sources_info = [] then Inl (Stop ''Por favor, carga al menos una base de datos en las tarjetas de arriba.'')
      else (case limpieza sources_info ([], [], []) of
          Inl e \<Rightarrow> Inl e
        | Inr (fuentes_limpias, extra_cols_map, avisos) \<Rightarrow>
            if fuentes_limpias = []
            then Inl (Stop (''No se ha cargado ninguna base de datos v'' @ [CHR 0xC3, CHR 0xA1] @ ''lida.''))
            else (case construir_interseccion fuentes_limpias columna_estandar of
                Inl e \<Rightarrow> Inl e
              | Inr (species_sets, tabla_interseccion) \<Rightarrow>
                  (case agregar_columnas_extra fuentes_limpias extra_cols_map tabla_interseccion of
                     Inl e \<Rightarrow> Inl e
                   | Inr tabla_final \<Rightarrow> Inr (avisos, species_sets, tabla_final)))))"

section \<open>What a normalized table is\<close>


definition clean_text :: "string \<Rightarrow> bool" where
  "clean_text s = (s \<noteq> [] \<and> strip s = s \<and> lower s = s)"

fun clean_cell :: "cell \<Rightarrow> bool" where
  "clean_cell (Str s) = clean_text s"
| "clean_cell _ = False"

definition is_normalized :: "string \<Rightarrow> dataframe \<Rightarrow> bool" where
  "is_normalized canon t =
     (count_list (columns t) canon = 1 \<and>
      list_all (\<lambda>(l, r). list_all clean_cell (cells_named (columns t) canon r)) (rows t) \<and>
      distinct (map (\<lambda>(l, r). cells_named (columns t) canon r) (rows t)))"

text \<open>
  The species set of a table with one column \<open>canon\<close>, and the number of sources of a
  dictionary of species sets that hold a species.
\<close>

definition especies :: "dataframe \<Rightarrow> string \<Rightarrow> cell list" where
  "especies df canon = unique (dropna (column_values df canon))"

definition fuentes_con :: "(string \<times> cell list) list \<Rightarrow> cell \<Rightarrow> nat" where
  "fuentes_con species_sets e = length (filter (\<lambda>(nombre_fuente, conj). e \<in> set conj) species_sets)"

text \<open>The sum of the 0/1 cells of a row under the columns of the sources.\<close>

definition suma_presencia :: "string list \<Rightarrow> string list \<Rightarrow> cell list \<Rightarrow> int" where
  "suma_presencia cols nombres r =
     sum_list (map (\<lambda>n. case cell_of cols n r of Some (IntV i) \<Rightarrow> i | _ \<Rightarrow> 0) nombres)"

text \<open>The order of the cells of a column: \<open>Str a\<close> is below \<open>Str b\<close> when \<open>a \<le> b\<close>.\<close>

definition cell_le :: "cell \<Rightarrow> cell \<Rightarrow> bool" where
  "cell_le a b = (cell_key (Some a) \<le> cell_key (Some b))"

text \<open>
  The keys of the row dictionary that \<open>fila_de\<close> builds for the sources \<open>nombres\<close>, and
  the dictionary literal it starts from.
\<close>

definition claves :: "string \<Rightarrow> string list \<Rightarrow> string list" where
  "claves canon nombres = fold (\<lambda>n ks. if n \<in> set ks then ks else ks @ [n]) nombres
      (if canon = ''num_fuentes'' then [canon] else [canon, ''num_fuentes''])"

definition fila_base :: "string \<Rightarrow> cell \<Rightarrow> nat \<Rightarrow> (string \<times> cell) list" where
  "fila_base canon e num = AList.update ''num_fuentes'' (IntV (int num)) (AList.update canon e [])"

text \<open>
  The intersection table that \<open>construir_interseccion\<close> builds from a non-empty dictionary
  of species sets, and the key its rows are sorted by.
\<close>

definition tabla_interseccion_de :: "string \<Rightarrow> (string \<times> cell list) list \<Rightarrow> dataframe" where
  "tabla_interseccion_de canon S =
     (let tabla = DataFrame (filas_de canon S (union_all (map snd S)))
      in if rows tabla \<noteq> [] \<and> columns tabla \<noteq> [] then reset_index (sort_values canon tabla) else tabla)"

definition clave_orden :: "string \<Rightarrow> string list \<Rightarrow> cell list \<Rightarrow> int \<times> nat \<times> int \<times> string" where
  "clave_orden canon cols r = (count_key (cell_of cols ''num_fuentes'' r), cell_key (cell_of cols canon r))"

text \<open>Every table of a dictionary of sources is normalized.\<close>

definition todas_normalizadas :: "string \<Rightarrow> (string \<times> dataframe) list \<Rightarrow> bool" where
  "todas_normalizadas canon fuentes = list_all (\<lambda>p. is_normalized canon (snd p)) fuentes"

section \<open>What the enrichment adds\<close>

text \<open>
  A table is rectangular when every row has one cell per column, as every DataFrame has.
  \<open>celda\<close> reads a cell, a missing value where there is none.
\<close>

definition rectangular :: "dataframe \<Rightarrow> bool" where
  "rectangular df = list_all (\<lambda>(l, r). length r = length (columns df)) (rows df)"

definition celda :: "string list \<Rightarrow> string \<Rightarrow> cell list \<Rightarrow> cell" where
  "celda cols k r = (case cell_of cols k r of Some v \<Rightarrow> v | None \<Rightarrow> NaN)"

text \<open>
  The label of the column added for a source and its extra column; the value looked up
  for a species key in a source's table (of the first row with that key, a missing value
  when there is no such row); and the intersection table with one such column per entry
  of \<open>extras\<close>, in the order of the entries.
\<close>

definition nuevo_nombre :: "string \<times> string \<Rightarrow> string" where
  "nuevo_nombre x = fst x @ ''_'' @ snd x"

definition valor_extra :: "dataframe \<Rightarrow> string \<Rightarrow> string \<Rightarrow> cell option \<Rightarrow> cell" where
  "valor_extra df canon e k =
     (case filter (\<lambda>(l, r). cell_of (columns df) canon r = k) (rows df) of
        [] \<Rightarrow> NaN
      | (l, r) # _ \<Rightarrow> celda (columns df) e r)"

definition columna_extra :: "(string \<times> dataframe) list \<Rightarrow> string \<Rightarrow> string \<times> string \<Rightarrow> cell option \<Rightarrow> cell" where
  "columna_extra fuentes canon x k =
     (case map_of fuentes (fst x) of None \<Rightarrow> NaN | Some df \<Rightarrow> valor_extra df canon (snd x) k)"

definition tabla_enriquecida ::
  "(string \<times> dataframe) list \<Rightarrow> string \<Rightarrow> (string \<times> string) list \<Rightarrow> dataframe \<Rightarrow> dataframe" where
  "tabla_enriquecida fuentes canon extras tabla =
     \<lparr>columns = columns tabla @ map nuevo_nombre extras,
      rows = map (\<lambda>(l, r). (l, r @ map (\<lambda>x. columna_extra fuentes canon x (cell_of (columns tabla) canon r)) extras))
               (rows tabla)\<rparr>"

text \<open>
  An entry of \<open>extras\<close> is valid for the cleaned tables when its source has a normalized,
  rectangular table in which the extra column is a column other than the canonical one,
  under a label that occurs once.
\<close>

definition extra_valida :: "(string \<times> dataframe) list \<Rightarrow> string \<Rightarrow> string \<times> string \<Rightarrow> bool" where
  "extra_valida fuentes canon x =
     (case map_of fuentes (fst x) of
        None \<Rightarrow> False
      | Some df \<Rightarrow> is_normalized canon df \<and> rectangular df \<and> count_list (columns df) (snd x) = 1 \<and> snd x \<noteq> canon)"

section \<open>Example tables\<close>

text \<open>
  Three small uploads: one with blanks, a missing name and a repeated species; one that
  has a column \<open>species\<close> next to a column \<open>scientificName\<close>, as exports in the Darwin
  Core layout do; one that is already clean.
\<close>

definition tabla_sib :: dataframe where
  "tabla_sib = \<lparr>columns = [''especie'', ''estado''],
     rows = [(0, [Str '' Felis catus'', Str ''LC'']), (1, [NaN, Str ''VU'']),
             (2, [Str ''felis CATUS  '', Str ''EN'']), (3, [Str ''  '', Str ''DD'']),
             (4, [Str ''Canis lupus'', Str ''LC''])]\<rparr>"

definition tabla_gbif :: dataframe where
  "tabla_gbif = \<lparr>columns = [''species'', ''scientificName''],
     rows = [(0, [Str ''Felis catus'', Str ''Felis catus Linnaeus, 1758''])]\<rparr>"


definition tabla_sib_limpia :: dataframe where
  "tabla_sib_limpia = \<lparr>columns = [''scientificName'', ''estado''],
     rows = [(0, [Str ''felis catus'', Str ''LC'']), (1, [Str ''nan'', Str ''VU'']),
             (4, [Str ''canis lupus'', Str ''LC''])]\<rparr>"

definition tabla_iucn_limpia :: dataframe where
  "tabla_iucn_limpia = \<lparr>columns = [''scientificName'', ''categoria''],
     rows = [(0, [Str ''canis lupus'', Str ''LC'']), (1, [Str ''nan'', Str ''CR'']), (2, [Str ''zorro'', Str ''NT''])]\<rparr>"

definition tabla_gbif_limpia :: dataframe where
  "tabla_gbif_limpia = \<lparr>columns = [''scientificName'', ''pais''],
     rows = [(0, [Str ''puma concolor'', Str ''CO''])]\<rparr>"

text \<open>
  Dictionaries of cleaned tables: two sources that share two species, two sources that
  share none, and three sources of which one is called \<open>num_fuentes\<close>.
\<close>

definition fuentes_ejemplo :: "(string \<times> dataframe) list" where
  "fuentes_ejemplo = [(''SIB'', tabla_sib_limpia), (''IUCN'', tabla_iucn_limpia)]"

definition fuentes_disjuntas :: "(string \<times> dataframe) list" where
  "fuentes_disjuntas = [(''SIB'', tabla_sib_limpia), (''GBIF'', tabla_gbif_limpia)]"

definition fuentes_colision :: "(string \<times> dataframe) list" where
  "fuentes_colision = [(''SIB'', tabla_sib_limpia), (''IUCN'', tabla_iucn_limpia), (''num_fuentes'', tabla_gbif_limpia)]"

text \<open>What \<open>construir_interseccion\<close> returns for these dictionaries.\<close>

definition species_sets_ejemplo :: "(string \<times> cell list) list" where
  "species_sets_ejemplo =
     [(''SIB'', [Str ''felis catus'', Str ''nan'', Str ''canis lupus'']),
      (''IUCN'', [Str ''canis lupus'', Str ''nan'', Str ''zorro''])]"

definition tabla_ejemplo :: dataframe where
  "tabla_ejemplo = \<lparr>columns = [''scientificName'', ''num_fuentes'', ''SIB'', ''IUCN''],
     rows = [(0, [Str ''canis lupus'', IntV 2, IntV 1, IntV 1]),
             (1, [Str ''nan'', IntV 2, IntV 1, IntV 1])]\<rparr>"

definition species_sets_colision :: "(string \<times> cell list) list" where
  "species_sets_colision =
     [(''SIB'', [Str ''felis catus'', Str ''nan'', Str ''canis lupus'']),
      (''IUCN'', [Str ''canis lupus'', Str ''nan'', Str ''zorro'']),
      (''num_fuentes'', [Str ''puma concolor''])]"

definition tabla_colision :: dataframe where
  "tabla_colision = \<lparr>columns = [''scientificName'', ''num_fuentes'', ''SIB'', ''IUCN''],
     rows = [(0, [Str ''canis lupus'', IntV 0, IntV 1, IntV 1]),
             (1, [Str ''nan'', IntV 0, IntV 1, IntV 1])]\<rparr>"

text \<open>
  A run of the app: two uploads without a species in common, the first with the extra
  column \<open>estado\<close>; and the same uploads with no extra column.
\<close>

definition tabla_pumas :: dataframe where
  "tabla_pumas = \<lparr>columns = [''nombre'', ''pais''], rows = [(0, [Str ''Puma concolor'', Str ''CO''])]\<rparr>"

definition cards_disjuntas :: "card list" where
  "cards_disjuntas =
     [\<lparr>file_obj = Some tabla_sib, species_col_input = ''especie'', extra_col_input = ''estado''\<rparr>,
      \<lparr>file_obj = Some tabla_pumas, species_col_input = ''nombre'', extra_col_input = ''''\<rparr>]"

definition sources_disjuntas :: "source list" where
  "sources_disjuntas =
     [\<lparr>name = ''SIB'', df_raw = tabla_sib, species_col = ''especie'', extra_col = ''estado''\<rparr>,
      \<lparr>name = ''GBIF'', df_raw = tabla_pumas, species_col = ''nombre'', extra_col = ''''\<rparr>]"

definition sources_disjuntas_sin_extra :: "source list" where
  "sources_disjuntas_sin_extra =
     [\<lparr>name = ''SIB'', df_raw = tabla_sib, species_col = ''especie'', extra_col = ''''\<rparr>,
      \<lparr>name = ''GBIF'', df_raw = tabla_pumas, species_col = ''nombre'', extra_col = ''''\<rparr>]"

section \<open>Text\<close>











section \<open>Rows and tables\<close>

lemma columns_rename [simp]: "columns (rename a b df) = map (\<lambda>n. if n = a then b else n) (columns df)"
  and rows_rename [simp]: "rows (rename a b df) = rows df"
  by (simp_all add: rename_def)

lemma columns_assign_map [simp]: "columns (assign_map k f df) = columns df"
  and columns_drop_empty [simp]: "columns (drop_empty k df) = columns df"
  and columns_drop_duplicates [simp]: "columns (drop_duplicates k df) = columns df"
  by (simp_all add: assign_map_def drop_empty_def drop_duplicates_def)



lemma cell_of_cells_named:
  "cell_of cols k r = (case cells_named cols k r of [] \<Rightarrow> None | v # _ \<Rightarrow> Some v)"
proof (induction cols arbitrary: r)
  case Nil
  then show ?case by (simp add: cell_of_def cells_named_def)
next
  case (Cons n ns)
  then show ?case by (cases r) (auto simp: cell_of_def cells_named_def)
qed

lemma length_cells_named: "length (cells_named cols k r) \<le> count_list cols k"
proof (induction cols arbitrary: r)
  case Nil
  then show ?case by (simp add: cells_named_def)
next
  case (Cons n ns)
  show ?case
  proof (cases r)
    case Nil
    then show ?thesis by (simp add: cells_named_def)
  next
    case (Cons v vs)
    with Cons.IH [of vs] show ?thesis by (auto simp: cells_named_def)
  qed
qed

lemma cells_named_single:
  assumes "count_list cols k = 1"
  shows "cells_named cols k r = (case cell_of cols k r of None \<Rightarrow> [] | Some v \<Rightarrow> [v])"
proof -
  from length_cells_named [of cols k r] assms have "length (cells_named cols k r) \<le> 1" by simp
  then show ?thesis
    by (cases "cells_named cols k r") (auto simp: cell_of_cells_named)
qed


lemma keep_first_keys:
  "set (map key (keep_first key seen rs)) = set (map key rs) - set seen"
  by (induction rs arbitrary: seen) auto

lemma keep_first_distinct: "distinct (map key (keep_first key seen rs))"
  by (induction rs arbitrary: seen) (auto simp: keep_first_keys [simplified])

lemma keep_first_id:
  "distinct (map key rs) \<Longrightarrow> set (map key rs) \<inter> set seen = {} \<Longrightarrow> keep_first key seen rs = rs"
  by (induction rs arbitrary: seen) auto

section \<open>The normalizer\<close>

lemma limpiar_dataframe_heap_result:
  assumes "df < length h"
  shows "limpiar_dataframe_heap h df c canon =
     (if c \<notin> set (columns (h ! df)) then (Inl (ValueError (missing_column_message c)), h)
      else if count_list (columns (rename c canon (h ! df))) canon \<noteq> 1
      then (Inl (AttributeError ''str''), h @ [h ! df, rename c canon (h ! df)])
      else (Inr (length h + 3),
         h @ [h ! df,
              assign_map canon (\<lambda>v. Str (strip (astype_str v))) (rename c canon (h ! df)),
              assign_map canon str_lower (drop_empty canon
                (assign_map canon (\<lambda>v. Str (strip (astype_str v))) (rename c canon (h ! df)))),
              drop_duplicates canon (assign_map canon str_lower (drop_empty canon
                (assign_map canon (\<lambda>v. Str (strip (astype_str v))) (rename c canon (h ! df)))))]))"
  using assms
  by (simp add: limpiar_dataframe_heap_def alloc_def Let_def nth_append list_update_append)












section \<open>Rows of the intersection table\<close>

lemma keep_first_cong_seen:
  "set seen = set seen' \<Longrightarrow> keep_first key seen rs = keep_first key seen' rs"
proof (induction rs arbitrary: seen seen')
  case Nil
  show ?case by simp
next
  case (Cons r rs)
  from Cons.prems have a: "keep_first key seen rs = keep_first key seen' rs"
    by (rule Cons.IH)
  from Cons.prems have "set (key r # seen) = set (key r # seen')" by simp
  then have b: "keep_first key (key r # seen) rs = keep_first key (key r # seen') rs"
    by (rule Cons.IH)
  from Cons.prems a b show ?case by simp
qed

lemma keep_first_append:
  "keep_first key seen (xs @ ys) = keep_first key seen xs @ keep_first key (map key xs @ seen) ys"
proof (induction xs arbitrary: seen)
  case Nil
  then show ?case by simp
next
  case (Cons x xs)
  show ?case
  proof (cases "key x \<in> set seen")
    case True
    then have "set (map key xs @ seen) = set (key x # map key xs @ seen)" by auto
    from keep_first_cong_seen [OF this] True Cons.IH [of seen] show ?thesis by simp
  next
    case False
    have "set (map key xs @ key x # seen) = set (key x # map key xs @ seen)" by auto
    from keep_first_cong_seen [OF this] False Cons.IH [of "key x # seen"] show ?thesis by simp
  qed
qed

lemma keep_first_seen_all: "set (map key rs) \<subseteq> set seen \<Longrightarrow> keep_first key seen rs = []"
  by (induction rs arbitrary: seen) auto

lemma keep_first_concat_same:
  assumes "distinct K" "set fs \<subseteq> {K}" "fs \<noteq> []"
  shows "keep_first (\<lambda>k. k) [] (concat fs) = K"
proof -
  from assms obtain gs where fs: "fs = K # gs" and gs: "set gs \<subseteq> {K}"
    by (cases fs) auto
  from gs have "set (concat gs) \<subseteq> set K" by auto
  then have "set (map (\<lambda>k. k) (concat gs)) \<subseteq> set (map (\<lambda>k. k) K @ [])" by simp
  then have "keep_first (\<lambda>k. k) (map (\<lambda>k. k) K @ []) (concat gs) = []"
    by (rule keep_first_seen_all)
  moreover from assms(1) have "keep_first (\<lambda>k. k) [] K = K"
    by (simp add: keep_first_id)
  ultimately show ?thesis
    by (simp only: fs concat.simps keep_first_append append_Nil2)
qed

lemma keys_fold_update:
  "map fst (fold (\<lambda>(n, p) fila. AList.update n (g p) fila) pres fila)
     = fold (\<lambda>n ks. if n \<in> set ks then ks else ks @ [n]) (map fst pres) (map fst fila)"
proof (induction pres arbitrary: fila)
  case Nil
  then show ?case by simp
next
  case (Cons a pres)
  obtain n p where a: "a = (n, p)" by (cases a)
  show ?case
    by (simp add: a Cons.IH update_keys)
qed

lemma keys_fila_de: "map fst (fila_de canon e k pres) = claves canon (map fst pres)"
  by (simp add: fila_de_def claves_def keys_fold_update)

lemma distinct_fold_keys:
  "distinct ks \<Longrightarrow> distinct (fold (\<lambda>n ks. if n \<in> set ks then ks else ks @ [n]) ns ks)"
  by (induction ns arbitrary: ks) auto

lemma distinct_claves: "distinct (claves canon nombres)"
  by (simp add: claves_def distinct_fold_keys)

lemma set_fold_keys:
  "set (fold (\<lambda>n ks. if n \<in> set ks then ks else ks @ [n]) ns ks) = set ks \<union> set ns"
  by (induction ns arbitrary: ks) auto

lemma set_claves: "set (claves canon nombres) = {canon, ''num_fuentes''} \<union> set nombres"
  by (auto simp: claves_def set_fold_keys)

lemma fold_keys_fresh:
  "distinct ns \<Longrightarrow> set ns \<inter> set ks = {} \<Longrightarrow>
     fold (\<lambda>n ks. if n \<in> set ks then ks else ks @ [n]) ns ks = ks @ ns"
  by (induction ns arbitrary: ks) auto

lemma claves_fresh:
  "canon \<noteq> ''num_fuentes'' \<Longrightarrow> distinct nombres \<Longrightarrow> canon \<notin> set nombres \<Longrightarrow> ''num_fuentes'' \<notin> set nombres
    \<Longrightarrow> claves canon nombres = canon # ''num_fuentes'' # nombres"
  by (simp add: claves_def fold_keys_fresh)

lemma map_of_fold_update:
  "map_of (fold (\<lambda>(n, p) fila. AList.update n (g p) fila) pres fila) k
     = (case map_of (rev pres) k of Some p \<Rightarrow> Some (g p) | None \<Rightarrow> map_of fila k)"
proof (induction pres arbitrary: fila)
  case Nil
  then show ?case by simp
next
  case (Cons a pres)
  obtain n p where a: "a = (n, p)" by (cases a)
  show ?case
    by (cases "map_of (rev pres) k") (simp_all add: a Cons.IH update_conv' map_add_def)
qed

lemma map_of_fila_base:
  "map_of (fila_base canon e num) k =
     (if k = ''num_fuentes'' then Some (IntV (int num)) else if k = canon then Some e else None)"
  unfolding fila_base_def update_conv' by simp

lemma map_of_fila_de:
  "map_of (fila_de canon e num pres) k =
     (case map_of (rev pres) k of
        Some p \<Rightarrow> Some (IntV (if p then 1 else 0))
      | None \<Rightarrow> if k = ''num_fuentes'' then Some (IntV (int num)) else if k = canon then Some e else None)"
  unfolding fila_de_def map_of_fold_update fila_base_def [symmetric] map_of_fila_base ..

lemma lookup_keys_values:
  "distinct (map fst fila) \<Longrightarrow>
     map (\<lambda>c. case map_of fila c of None \<Rightarrow> NaN | Some v \<Rightarrow> v) (map fst fila) = map snd fila"
proof (induction fila)
  case Nil
  show ?case by simp
next
  case (Cons a fila)
  obtain k v where a: "a = (k, v)" by (cases a)
  from Cons.prems have k: "k \<notin> set (map fst fila)" and d: "distinct (map fst fila)"
    by (simp_all add: a)
  have "map (\<lambda>c. case map_of (a # fila) c of None \<Rightarrow> NaN | Some v \<Rightarrow> v) (map fst fila)
      = map (\<lambda>c. case map_of fila c of None \<Rightarrow> NaN | Some v \<Rightarrow> v) (map fst fila)"
    using k by (intro map_cong) (auto simp: a)
  with Cons.IH [OF d] show ?case by (simp add: a)
qed

lemma cell_of_fila: "cell_of (map fst fila) k (map snd fila) = map_of fila k"
  by (simp add: cell_of_def zip_map_fst_snd)

lemma DataFrame_Nil: "DataFrame [] = \<lparr>columns = [], rows = []\<rparr>"
  by (simp add: DataFrame_def)

lemma DataFrame_same_keys:
  assumes "distinct K" "filas \<noteq> []" "\<And>fila. fila \<in> set filas \<Longrightarrow> map fst fila = K"
  shows "DataFrame filas = \<lparr>columns = K, rows = zip [0..<length filas] (map (map snd) filas)\<rparr>"
proof -
  from assms(3) have "set (map (map fst) filas) \<subseteq> {K}" by auto
  with assms(1,2) have cols: "keep_first (\<lambda>k. k) [] (concat (map (map fst) filas)) = K"
    by (intro keep_first_concat_same) auto
  have vals: "map (\<lambda>fila. map (\<lambda>c. case map_of fila c of None \<Rightarrow> NaN | Some v \<Rightarrow> v) K) filas = map (map snd) filas"
  proof (rule map_cong [OF refl])
    fix fila assume f: "fila \<in> set filas"
    with assms(3) have k: "map fst fila = K" by simp
    with assms(1) have "distinct (map fst fila)" by simp
    from lookup_keys_values [OF this] show "map (\<lambda>c. case map_of fila c of None \<Rightarrow> NaN | Some v \<Rightarrow> v) K = map snd fila"
      by (simp add: k)
  qed
  show ?thesis unfolding DataFrame_def cols Let_def vals ..
qed

lemma map_fst_presencia_de [simp]: "map fst (presencia_de S e) = map fst S"
  by (simp add: presencia_de_def case_prod_beta)

lemma count_presencia_de: "length (filter snd (presencia_de S e)) = fuentes_con S e"
  by (simp add: presencia_de_def fuentes_con_def filter_map comp_def case_prod_beta cong: filter_cong)

lemma filas_de_mem:
  "fila \<in> set (filas_de canon S todas) \<longleftrightarrow>
     (\<exists>e \<in> set todas. 2 \<le> fuentes_con S e \<and> fila = fila_de canon e (fuentes_con S e) (presencia_de S e))"
  by (auto simp: filas_de_def Let_def count_presencia_de)

lemma filas_de_keys: "fila \<in> set (filas_de canon S todas) \<Longrightarrow> map fst fila = claves canon (map fst S)"
  by (auto simp: filas_de_mem keys_fila_de)

lemma filas_de_Nil: "filas_de canon S todas = [] \<longleftrightarrow> (\<forall>e \<in> set todas. fuentes_con S e < 2)"
proof -
  have "filas_de canon S todas = [] \<longleftrightarrow> set (filas_de canon S todas) = {}" by simp
  also have "\<dots> \<longleftrightarrow> (\<forall>e \<in> set todas. \<not> 2 \<le> fuentes_con S e)"
    by (auto simp: filas_de_mem set_eq_iff)
  finally show ?thesis by (simp add: not_le)
qed

section \<open>The reconciliation engine\<close>

lemma count_list_one_mem: "count_list xs x = 1 \<Longrightarrow> x \<in> set xs"
  by (metis count_notin zero_neq_one)

lemma especies_de_ok:
  "count_list (columns df) canon = 1 \<Longrightarrow> especies_de df canon = Inr (especies df canon)"
  by (simp add: especies_de_def especies_def count_list_one_mem)

lemma species_sets_de_ok:
  "\<forall>p \<in> set fuentes. count_list (columns (snd p)) canon = 1 \<Longrightarrow>
   species_sets_de fuentes canon acc
      = Inr (fold (\<lambda>(n, df) acc. AList.update n (especies df canon) acc) fuentes acc)"
proof (induction fuentes arbitrary: acc)
  case Nil
  show ?case by simp
next
  case (Cons a fuentes)
  obtain n df where a: "a = (n, df)" by (cases a)
  from Cons.prems have "especies_de df canon = Inr (especies df canon)"
    by (simp add: a especies_de_ok)
  moreover from Cons.prems have "\<forall>p \<in> set fuentes. count_list (columns (snd p)) canon = 1" by simp
  ultimately show ?case by (simp add: a Cons.IH)
qed

lemma update_fresh: "k \<notin> fst ` set al \<Longrightarrow> AList.update k v al = al @ [(k, v)]"
  by (induction al) auto

lemma fold_update_distinct:
  assumes "distinct (map fst xs)" "set (map fst xs) \<inter> set (map fst acc) = {}"
  shows "fold (\<lambda>(n, df) acc. AList.update n (f df) acc) xs acc = acc @ map (\<lambda>(n, df). (n, f df)) xs"
  using assms
proof (induction xs arbitrary: acc)
  case Nil
  show ?case by simp
next
  case (Cons a xs)
  obtain n df where a: "a = (n, df)" by (cases a)
  from Cons.prems have fresh: "n \<notin> fst ` set acc" and d: "distinct (map fst xs)"
    and n: "n \<notin> set (map fst xs)" and disj: "set (map fst xs) \<inter> set (map fst acc) = {}"
    by (auto simp: a)
  from n disj have "set (map fst xs) \<inter> set (map fst (acc @ [(n, f df)])) = {}" by auto
  from Cons.IH [OF d this] fresh show ?case by (simp add: a update_fresh)
qed

lemma fold_update_nonempty:
  "xs \<noteq> [] \<or> acc \<noteq> [] \<Longrightarrow> fold (\<lambda>(n, df) acc. AList.update n (f df) acc) xs acc \<noteq> []"
proof (induction xs arbitrary: acc)
  case Nil
  then show ?case by simp
next
  case (Cons a xs)
  obtain n df where a: "a = (n, df)" by (cases a)
  have "AList.update n (f df) acc \<noteq> []" by simp
  then show ?case using Cons.IH [of "AList.update n (f df) acc"] by (simp add: a)
qed

lemma distinct_fold_update:
  "distinct (map fst acc) \<Longrightarrow> distinct (map fst (fold (\<lambda>(n, df) acc. AList.update n (f df) acc) xs acc))"
proof (induction xs arbitrary: acc)
  case Nil
  then show ?case by simp
next
  case (Cons a xs)
  obtain n df where a: "a = (n, df)" by (cases a)
  from Cons.prems have "distinct (map fst (AList.update n (f df) acc))" by (rule distinct_update)
  from Cons.IH [OF this] show ?case by (simp add: a)
qed

lemma construir_interseccion_ok:
  assumes "\<forall>p \<in> set fuentes. count_list (columns (snd p)) canon = 1" "fuentes \<noteq> []"
  shows "construir_interseccion fuentes canon =
     Inr (fold (\<lambda>(n, df) acc. AList.update n (especies df canon) acc) fuentes [],
          tabla_interseccion_de canon (fold (\<lambda>(n, df) acc. AList.update n (especies df canon) acc) fuentes []))"
  using fold_update_nonempty [of fuentes "[]" "\<lambda>df. especies df canon"] assms(2)
  by (simp add: construir_interseccion_def species_sets_de_ok [OF assms(1)] tabla_interseccion_de_def Let_def)

lemma construir_interseccion_empty:
  "construir_interseccion [] canon = Inr ([], \<lparr>columns = [canon], rows = []\<rparr>)"
  by (simp add: construir_interseccion_def)

lemma set_unique [simp]: "set (unique xs) = set xs"
  using keep_first_keys [of "\<lambda>v. v" "[]" xs] by (simp add: unique_def)

lemma distinct_unique [simp]: "distinct (unique xs)"
  using keep_first_distinct [of "\<lambda>v. v" "[]" xs] by (simp add: unique_def)

lemma set_fold_union:
  "set (fold (\<lambda>conj all_species. all_species @ filter (\<lambda>e. e \<notin> set all_species) (unique conj)) conjs acc)
     = set acc \<union> \<Union> (set ` set conjs)"
  by (induction conjs arbitrary: acc) auto

lemma set_union_all: "set (union_all conjs) = \<Union> (set ` set conjs)"
  by (simp add: union_all_def set_fold_union)

lemma claves_nonempty: "claves canon nombres \<noteq> []"
proof -
  have "canon \<in> set (claves canon nombres)" by (simp add: set_claves)
  then show ?thesis by auto
qed

lemma map_snd_zip_upt: "map snd (zip [0..<length xs] xs) = xs"
  by (simp add: map_snd_zip)

lemma tabla_interseccion_de_empty:
  assumes "filas_de canon S (union_all (map snd S)) = []"
  shows "tabla_interseccion_de canon S = \<lparr>columns = [], rows = []\<rparr>"
  by (simp add: tabla_interseccion_de_def assms DataFrame_Nil)

lemma tabla_interseccion_de_rows:
  assumes ne: "filas_de canon S (union_all (map snd S)) \<noteq> []"
  defines "filas \<equiv> filas_de canon S (union_all (map snd S))"
  defines "K \<equiv> claves canon (map fst S)"
  shows "tabla_interseccion_de canon S =
     \<lparr>columns = K,
      rows = zip [0..<length filas]
        (map snd (sort_key (\<lambda>(l, r). clave_orden canon K r) (zip [0..<length filas] (map (map snd) filas))))\<rparr>"
proof -
  have df: "DataFrame filas = \<lparr>columns = K, rows = zip [0..<length filas] (map (map snd) filas)\<rparr>"
    unfolding K_def
    by (rule DataFrame_same_keys) (simp_all add: distinct_claves ne filas_def filas_de_keys)
  have kne: "K \<noteq> []" by (simp add: K_def claves_nonempty)
  from ne have fne: "filas \<noteq> []" by (simp add: filas_def)
  have key: "(\<lambda>(l, r). (count_key (cell_of K ''num_fuentes'' r), cell_key (cell_of K canon r)))
      = (\<lambda>(l, r). clave_orden canon K r)"
    by (simp add: clave_orden_def)
  show ?thesis
    unfolding tabla_interseccion_de_def filas_def [symmetric] df Let_def
    using kne fne by (simp add: reset_index_def sort_values_def key)
qed

lemma tabla_interseccion_de_cells:
  assumes ne: "filas_de canon S (union_all (map snd S)) \<noteq> []"
  shows "columns (tabla_interseccion_de canon S) = claves canon (map fst S)"
    and "set (map snd (rows (tabla_interseccion_de canon S)))
          = map snd ` set (filas_de canon S (union_all (map snd S)))"
    and "sorted (map (clave_orden canon (claves canon (map fst S))) (map snd (rows (tabla_interseccion_de canon S))))"
    and "map fst (rows (tabla_interseccion_de canon S)) = [0..<length (filas_de canon S (union_all (map snd S)))]"
proof -
  define filas where "filas = filas_de canon S (union_all (map snd S))"
  define K where "K = claves canon (map fst S)"
  define rows0 where "rows0 = zip [0..<length filas] (map (map snd) filas)"
  define ordenadas where "ordenadas = sort_key (\<lambda>(l, r). clave_orden canon K r) rows0"
  have t: "tabla_interseccion_de canon S = \<lparr>columns = K, rows = zip [0..<length filas] (map snd ordenadas)\<rparr>"
    unfolding ordenadas_def rows0_def filas_def K_def by (rule tabla_interseccion_de_rows [OF ne])
  have len: "length ordenadas = length filas" by (simp add: ordenadas_def rows0_def)
  then have cells: "map snd (rows (tabla_interseccion_de canon S)) = map snd ordenadas"
    by (simp add: t map_snd_zip)
  show "columns (tabla_interseccion_de canon S) = claves canon (map fst S)" by (simp add: t K_def)
  have "set (map snd ordenadas) = snd ` set rows0" by (simp add: ordenadas_def)
  also have "\<dots> = set (map snd rows0)" by simp
  also have "map snd rows0 = map (map snd) filas" by (simp add: rows0_def map_snd_zip)
  finally show "set (map snd (rows (tabla_interseccion_de canon S)))
          = map snd ` set (filas_de canon S (union_all (map snd S)))"
    by (simp add: cells filas_def)
  have fn: "(\<lambda>(l, r). clave_orden canon K r) = clave_orden canon K \<circ> snd"
    by (simp add: fun_eq_iff)
  have "sorted (map (\<lambda>(l, r). clave_orden canon K r) ordenadas)"
    unfolding ordenadas_def by (rule sorted_sort_key)
  then have "sorted (map (clave_orden canon K) (map snd ordenadas))"
    by (simp only: fn map_map)
  then show "sorted (map (clave_orden canon (claves canon (map fst S))) (map snd (rows (tabla_interseccion_de canon S))))"
    by (simp add: cells K_def)
  from len show "map fst (rows (tabla_interseccion_de canon S)) = [0..<length (filas_de canon S (union_all (map snd S)))]"
    by (simp add: t filas_def [symmetric])
qed

lemma is_normalized_count: "is_normalized canon t \<Longrightarrow> count_list (columns t) canon = 1"
  by (simp add: is_normalized_def)






lemma map_of_rev_distinct: "distinct (map fst xs) \<Longrightarrow> map_of (rev xs) = map_of xs"
proof (rule ext)
  fix k
  assume d: "distinct (map fst xs)"
  then have dr: "distinct (map fst (rev xs))" by (simp add: rev_map [symmetric])
  show "map_of (rev xs) k = map_of xs k"
  proof (cases "map_of xs k")
    case None
    then have "k \<notin> fst ` set (rev xs)" by (simp add: map_of_eq_None_iff)
    then show ?thesis by (simp add: None map_of_eq_None_iff)
  next
    case (Some v)
    with d have "(k, v) \<in> set (rev xs)" by simp
    with dr have "map_of (rev xs) k = Some v" by (rule_tac map_of_is_SomeI)
    with Some show ?thesis by simp
  qed
qed



lemma fila_de_fresh:
  assumes "k \<notin> fst ` set pres"
  shows "map_of (fila_de canon e n pres) k =
     (if k = ''num_fuentes'' then Some (IntV (int n)) else if k = canon then Some e else None)"
proof -
  from assms have "map_of (rev pres) k = None" by (simp add: map_of_eq_None_iff)
  then show ?thesis by (simp add: map_of_fila_de)
qed

lemma fila_de_fuente:
  assumes "distinct (map fst S)" "(nm, cj) \<in> set S"
  shows "map_of (fila_de canon e n (presencia_de S e)) nm = Some (IntV (if e \<in> set cj then 1 else 0))"
proof -
  have d: "distinct (map fst (presencia_de S e))" using assms(1) by simp
  from assms(2) have "(nm, e \<in> set cj) \<in> set (presencia_de S e)"
    by (force simp: presencia_de_def)
  with d have "map_of (presencia_de S e) nm = Some (e \<in> set cj)" by simp
  then show ?thesis by (simp add: map_of_fila_de map_of_rev_distinct [OF d])
qed

lemma tabla_row_cases:
  assumes "r \<in> set (map snd (rows (tabla_interseccion_de canon S)))"
  shows "\<exists>e \<in> \<Union> (set ` snd ` set S). 2 \<le> fuentes_con S e \<and>
     (\<forall>k. cell_of (columns (tabla_interseccion_de canon S)) k r
          = map_of (fila_de canon e (fuentes_con S e) (presencia_de S e)) k)"
proof -
  have ne: "filas_de canon S (union_all (map snd S)) \<noteq> []"
  proof
    assume "filas_de canon S (union_all (map snd S)) = []"
    from tabla_interseccion_de_empty [OF this] assms show False by simp
  qed
  from assms tabla_interseccion_de_cells(2) [OF ne]
  obtain fila where f: "fila \<in> set (filas_de canon S (union_all (map snd S)))" and r: "r = map snd fila"
    by auto
  from f obtain e where e: "e \<in> set (union_all (map snd S))" "2 \<le> fuentes_con S e"
    and fila: "fila = fila_de canon e (fuentes_con S e) (presencia_de S e)"
    by (auto simp: filas_de_mem)
  from f have k: "map fst fila = claves canon (map fst S)" by (rule filas_de_keys)
  have "cell_of (columns (tabla_interseccion_de canon S)) k' r = map_of fila k'" for k'
    by (simp add: tabla_interseccion_de_cells(1) [OF ne] k [symmetric] r cell_of_fila)
  with e show ?thesis by (auto simp: fila set_union_all)
qed

lemma tabla_row_exists:
  assumes "e \<in> \<Union> (set ` snd ` set S)" "2 \<le> fuentes_con S e"
  shows "\<exists>r \<in> set (map snd (rows (tabla_interseccion_de canon S))).
     \<forall>k. cell_of (columns (tabla_interseccion_de canon S)) k r
          = map_of (fila_de canon e (fuentes_con S e) (presencia_de S e)) k"
proof -
  define fila where "fila = fila_de canon e (fuentes_con S e) (presencia_de S e)"
  from assms have f: "fila \<in> set (filas_de canon S (union_all (map snd S)))"
    by (auto simp: filas_de_mem fila_def set_union_all)
  then have ne: "filas_de canon S (union_all (map snd S)) \<noteq> []" by auto
  from f have k: "map fst fila = claves canon (map fst S)" by (rule filas_de_keys)
  from f tabla_interseccion_de_cells(2) [OF ne]
  have "map snd fila \<in> set (map snd (rows (tabla_interseccion_de canon S)))" by auto
  moreover have "cell_of (columns (tabla_interseccion_de canon S)) k' (map snd fila) = map_of fila k'" for k'
    by (simp add: tabla_interseccion_de_cells(1) [OF ne] k [symmetric] cell_of_fila)
  ultimately show ?thesis unfolding fila_def by blast
qed

lemma fuentes_con_pos: "0 < fuentes_con S e \<longleftrightarrow> e \<in> \<Union> (set ` snd ` set S)"
  by (auto simp: fuentes_con_def filter_empty_conv image_iff) force

lemma species_sets_distinct_names:
  assumes "distinct (map fst fuentes)"
  shows "fold (\<lambda>(n, df) acc. AList.update n (especies df canon) acc) fuentes []
       = map (\<lambda>(n, df). (n, especies df canon)) fuentes"
  using fold_update_distinct [of fuentes "[]" "\<lambda>df. especies df canon"] assms by simp

lemma cell_le_Str [simp]: "cell_le (Str a) (Str b) \<longleftrightarrow> a \<le> b"
  by (simp add: cell_le_def)


lemma sum_flags:
  "sum_list (map (\<lambda>(n, cj). if e \<in> set cj then (1::int) else 0) S) = int (fuentes_con S e)"
  by (induction S) (auto simp: fuentes_con_def)

lemma construir_interseccion_rows:
  assumes "\<forall>p \<in> set fuentes. is_normalized canon (snd p)" and "fuentes \<noteq> []"
    and "distinct (map fst fuentes)"
    and "canon \<noteq> ''num_fuentes''" and "canon \<notin> fst ` set fuentes" and "''num_fuentes'' \<notin> fst ` set fuentes"
  shows "\<exists>S tabla. S = map (\<lambda>(n, df). (n, especies df canon)) fuentes \<and>
     construir_interseccion fuentes canon = Inr (S, tabla) \<and>
     (\<forall>lr \<in> set (rows tabla). \<exists>e.
         cell_of (columns tabla) canon (snd lr) = Some e \<and>
         cell_of (columns tabla) ''num_fuentes'' (snd lr) = Some (IntV (int (fuentes_con S e))) \<and>
         suma_presencia (columns tabla) (map fst fuentes) (snd lr) = int (fuentes_con S e) \<and>
         2 \<le> fuentes_con S e \<and>
         (\<forall>nc \<in> set S. cell_of (columns tabla) (fst nc) (snd lr) = Some (IntV (if e \<in> set (snd nc) then 1 else 0)))) \<and>
     (\<forall>e. fuentes_con S e < 2 \<longrightarrow> (\<forall>lr \<in> set (rows tabla). cell_of (columns tabla) canon (snd lr) \<noteq> Some e)) \<and>
     (\<forall>e. 2 \<le> fuentes_con S e \<longrightarrow> (\<exists>lr \<in> set (rows tabla). cell_of (columns tabla) canon (snd lr) = Some e))"
proof -
  define S where "S = map (\<lambda>(n, df). (n, especies df canon)) fuentes"
  define t where "t = tabla_interseccion_de canon S"
  from assms(1) have cnt: "\<forall>p \<in> set fuentes. count_list (columns (snd p)) canon = 1"
    by (simp add: is_normalized_count)
  have ok: "construir_interseccion fuentes canon = Inr (S, t)"
    using construir_interseccion_ok [OF cnt assms(2)]
    by (simp add: species_sets_distinct_names [OF assms(3)] S_def t_def)
  have names: "map fst S = map fst fuentes" by (simp add: S_def case_prod_beta comp_def)
  then have dS: "distinct (map fst S)" using assms(3) by simp
  from names have fS: "fst ` set S = fst ` set fuentes" by (metis list.set_map)
  have fresh_canon: "canon \<notin> fst ` set (presencia_de S e)" for e
    using assms(5) fS by (metis list.set_map map_fst_presencia_de)
  have fresh_num: "''num_fuentes'' \<notin> fst ` set (presencia_de S e)" for e
    using assms(6) fS by (metis list.set_map map_fst_presencia_de)
  have canon_cell: "map_of (fila_de canon e n (presencia_de S e)) canon = Some e" for e n
    using fila_de_fresh [OF fresh_canon, of canon e n] assms(4) by simp
  have num_cell: "map_of (fila_de canon e n (presencia_de S e)) ''num_fuentes'' = Some (IntV (int n))" for e n
    using fila_de_fresh [OF fresh_num, of canon e n] by simp
  have row: "\<exists>e. cell_of (columns t) canon r = Some e \<and>
         cell_of (columns t) ''num_fuentes'' r = Some (IntV (int (fuentes_con S e))) \<and>
         suma_presencia (columns t) (map fst fuentes) r = int (fuentes_con S e) \<and>
         2 \<le> fuentes_con S e \<and>
         (\<forall>nc \<in> set S. cell_of (columns t) (fst nc) r = Some (IntV (if e \<in> set (snd nc) then 1 else 0)))"
    if "r \<in> set (map snd (rows t))" for r
  proof -
    from tabla_row_cases [OF that [unfolded t_def]]
    obtain e where e: "2 \<le> fuentes_con S e"
      and c: "\<And>k. cell_of (columns t) k r = map_of (fila_de canon e (fuentes_con S e) (presencia_de S e)) k"
      unfolding t_def by blast
    have flags: "cell_of (columns t) (fst nc) r = Some (IntV (if e \<in> set (snd nc) then 1 else 0))"
      if "nc \<in> set S" for nc
      using fila_de_fuente [OF dS, of "fst nc" "snd nc" canon e "fuentes_con S e"] that by (simp add: c)
    have "map (\<lambda>n. case cell_of (columns t) n r of Some (IntV i) \<Rightarrow> i | _ \<Rightarrow> 0) (map fst S)
        = map (\<lambda>(n, cj). if e \<in> set cj then (1::int) else 0) S"
      using flags by (auto simp: case_prod_beta)
    then have "sum_list (map (\<lambda>n. case cell_of (columns t) n r of Some (IntV i) \<Rightarrow> i | _ \<Rightarrow> 0) (map fst S))
        = int (fuentes_con S e)"
      by (simp only: sum_flags)
    then have "suma_presencia (columns t) (map fst fuentes) r = int (fuentes_con S e)"
      by (simp only: suma_presencia_def names [symmetric])
    with e flags show ?thesis by (auto simp: c canon_cell num_cell)
  qed
  have absent: "cell_of (columns t) canon r \<noteq> Some e"
    if "fuentes_con S e < 2" "r \<in> set (map snd (rows t))" for e r
  proof
    assume a: "cell_of (columns t) canon r = Some e"
    from row [OF that(2)] obtain e' where "cell_of (columns t) canon r = Some e'" "2 \<le> fuentes_con S e'"
      by blast
    with a that(1) show False by simp
  qed
  have present: "\<exists>lr \<in> set (rows t). cell_of (columns t) canon (snd lr) = Some e"
    if "2 \<le> fuentes_con S e" for e
  proof -
    from that have "0 < fuentes_con S e" by simp
    then have "e \<in> \<Union> (set ` snd ` set S)" by (simp only: fuentes_con_pos)
    from tabla_row_exists [OF this that, of canon]
    obtain r where r: "r \<in> set (map snd (rows t))"
      and c: "\<And>k. cell_of (columns t) k r = map_of (fila_de canon e (fuentes_con S e) (presencia_de S e)) k"
      unfolding t_def by blast
    from r obtain lr where lr: "lr \<in> set (rows t)" "r = snd lr" by auto
    from c [of canon] have "cell_of (columns t) canon (snd lr) = Some e"
      by (simp add: canon_cell lr(2))
    with lr(1) show ?thesis ..
  qed
  from row have row': "\<forall>lr \<in> set (rows t). \<exists>e.
         cell_of (columns t) canon (snd lr) = Some e \<and>
         cell_of (columns t) ''num_fuentes'' (snd lr) = Some (IntV (int (fuentes_con S e))) \<and>
         suma_presencia (columns t) (map fst fuentes) (snd lr) = int (fuentes_con S e) \<and>
         2 \<le> fuentes_con S e \<and>
         (\<forall>nc \<in> set S. cell_of (columns t) (fst nc) (snd lr) = Some (IntV (if e \<in> set (snd nc) then 1 else 0)))"
    by simp
  from absent have absent': "\<forall>e. fuentes_con S e < 2 \<longrightarrow> (\<forall>lr \<in> set (rows t). cell_of (columns t) canon (snd lr) \<noteq> Some e)"
    by simp
  from present have present': "\<forall>e. 2 \<le> fuentes_con S e \<longrightarrow> (\<exists>lr \<in> set (rows t). cell_of (columns t) canon (snd lr) = Some e)"
    by blast
  from ok row' absent' present' show ?thesis unfolding S_def [symmetric] by blast
qed


section \<open>The enrichment\<close>

lemma filter_eq_replicate: "filter (\<lambda>n. n = k) cols = replicate (count_list cols k) k"
  by (induction cols) auto

lemma cell_of_Some:
  "k \<in> set cols \<Longrightarrow> length r = length cols \<Longrightarrow> \<exists>v. cell_of cols k r = Some v"
proof -
  assume "k \<in> set cols" "length r = length cols"
  then have "map fst (zip cols r) = cols" and "k \<in> set cols" by simp_all
  then have "k \<in> set (map fst (zip cols r))" by simp
  then have "k \<in> fst ` set (zip cols r)" by (simp only: set_map)
  then have "map_of (zip cols r) k \<noteq> None" by (simp add: map_of_eq_None_iff)
  then show ?thesis by (auto simp: cell_of_def)
qed

lemma cells_named_celda:
  assumes "count_list cols k = 1" "length r = length cols"
  shows "cells_named cols k r = [celda cols k r]"
proof -
  from assms(1) have "k \<in> set cols" by (rule count_list_one_mem)
  from cell_of_Some [OF this assms(2)] obtain v where "cell_of cols k r = Some v" ..
  then show ?thesis by (simp add: cells_named_single [OF assms(1)] celda_def)
qed

lemma rectangularD: "rectangular df \<Longrightarrow> (l, r) \<in> set (rows df) \<Longrightarrow> length r = length (columns df)"
  by (auto simp: rectangular_def list_all_iff)

lemma select_columns_pair:
  assumes "count_list (columns df) canon = 1" "count_list (columns df) e = 1" "rectangular df"
  shows "select_columns [canon, e] df =
     Inr \<lparr>columns = [canon, e],
          rows = map (\<lambda>(l, r). (l, [celda (columns df) canon r, celda (columns df) e r])) (rows df)\<rparr>"
proof -
  from assms(1,2) have mem: "canon \<in> set (columns df)" "e \<in> set (columns df)"
    by (simp_all add: count_list_one_mem)
  have "map (\<lambda>(l, r). (l, concat (map (\<lambda>k. cells_named (columns df) k r) [canon, e]))) (rows df)
      = map (\<lambda>(l, r). (l, [celda (columns df) canon r, celda (columns df) e r])) (rows df)"
  proof (rule map_cong [OF refl])
    fix x assume x: "x \<in> set (rows df)"
    obtain l r where lr: "x = (l, r)" by (cases x)
    from rectangularD [OF assms(3)] x lr have len: "length r = length (columns df)" by simp
    show "(case x of (l, r) \<Rightarrow> (l, concat (map (\<lambda>k. cells_named (columns df) k r) [canon, e])))
        = (case x of (l, r) \<Rightarrow> (l, [celda (columns df) canon r, celda (columns df) e r]))"
      by (simp add: lr cells_named_celda [OF assms(1) len] cells_named_celda [OF assms(2) len])
  qed
  then show ?thesis
    using mem by (simp add: select_columns_def filter_eq_replicate assms(1,2))
qed

lemma filter_key_distinct:
  "distinct (map key xs) \<Longrightarrow> length (filter (\<lambda>x. key x = k) xs) \<le> 1"
proof (induction xs)
  case Nil
  show ?case by simp
next
  case (Cons x xs)
  then have ih: "length (filter (\<lambda>x. key x = k) xs) \<le> 1" and nx: "key x \<notin> key ` set xs" by simp_all
  show ?case
  proof (cases "key x = k")
    case True
    have "\<forall>y \<in> set xs. key y \<noteq> k"
    proof
      fix y assume "y \<in> set xs"
      then have "key y \<in> key ` set xs" by (rule imageI)
      with nx True show "key y \<noteq> k" by metis
    qed
    then have "filter (\<lambda>x. key x = k) xs = []" by (simp add: filter_empty_conv)
    with True show ?thesis by simp
  next
    case False
    with ih show ?thesis by simp
  qed
qed


lemma is_normalized_keys:
  assumes "is_normalized canon df"
  shows "distinct (map (\<lambda>(l, r). cell_of (columns df) canon r) (rows df))"
proof -
  from assms have cnt: "count_list (columns df) canon = 1"
    and dist: "distinct (map (\<lambda>(l, r). cells_named (columns df) canon r) (rows df))"
    by (simp_all add: is_normalized_def)
  define h where "h = (\<lambda>c :: cell option. case c of None \<Rightarrow> [] | Some v \<Rightarrow> [v])"
  have E: "(\<lambda>(l, r). cells_named (columns df) canon r) = h \<circ> (\<lambda>(l, r). cell_of (columns df) canon r)"
    by (simp add: fun_eq_iff h_def cells_named_single [OF cnt])
  have "distinct (map (h \<circ> (\<lambda>(l, r). cell_of (columns df) canon r)) (rows df))"
    using dist unfolding E .
  then have "distinct (map h (map (\<lambda>(l, r). cell_of (columns df) canon r) (rows df)))"
    by (simp only: map_map)
  then show ?thesis by (rule distinct_map [THEN iffD1, THEN conjunct1])
qed

lemma celda_Some:
  "k \<in> set cols \<Longrightarrow> length r = length cols \<Longrightarrow> cell_of cols k r = Some (celda cols k r)"
  using cell_of_Some [of k cols r] by (auto simp: celda_def)

lemma merge_row:
  assumes norm: "is_normalized canon df" and rect: "rectangular df" and ne: "e \<noteq> canon" "nuevo \<noteq> canon"
  defines "g \<equiv> (\<lambda>(l :: nat, r). (l, [celda (columns df) canon r, celda (columns df) e r]))"
  shows "(case filter (\<lambda>(l', rr). cell_of [canon, nuevo] canon rr = k) (map g (rows df)) of
            [] \<Rightarrow> [lr @ replicate (length [nuevo]) NaN]
          | ms \<Rightarrow> map (\<lambda>(l', rr). lr @ map snd (filter (\<lambda>(n, v). n \<noteq> canon) (zip [canon, nuevo] rr))) ms)
       = [lr @ [valor_extra df canon e k]]"
proof -
  from norm have cnt: "count_list (columns df) canon = 1" by (simp add: is_normalized_def)
  then have mem: "canon \<in> set (columns df)" by (rule count_list_one_mem)
  define F where "F = filter (\<lambda>(l, r). cell_of (columns df) canon r = k) (rows df)"
  have "filter (\<lambda>(l', rr). cell_of [canon, nuevo] canon rr = k) (map g (rows df))
      = map g (filter (\<lambda>x. (case g x of (l', rr) \<Rightarrow> cell_of [canon, nuevo] canon rr = k)) (rows df))"
    by (simp add: filter_map comp_def)
  also have "filter (\<lambda>x. (case g x of (l', rr) \<Rightarrow> cell_of [canon, nuevo] canon rr = k)) (rows df) = F"
    unfolding F_def
  proof (rule filter_cong [OF refl])
    fix x assume x: "x \<in> set (rows df)"
    obtain l r where lr: "x = (l, r)" by (cases x)
    from rectangularD [OF rect] x lr have "length r = length (columns df)" by simp
    from celda_Some [OF mem this]
    show "(case g x of (l', rr) \<Rightarrow> cell_of [canon, nuevo] canon rr = k)
        = (case x of (l, r) \<Rightarrow> cell_of (columns df) canon r = k)"
      by (simp add: lr g_def cell_of_def)
  qed
  finally have m: "filter (\<lambda>(l', rr). cell_of [canon, nuevo] canon rr = k) (map g (rows df)) = map g F" .
  from is_normalized_keys [OF norm]
  have l1: "length (filter (\<lambda>x. (case x of (l, r) \<Rightarrow> cell_of (columns df) canon r) = k) (rows df)) \<le> 1"
    by (rule filter_key_distinct)
  have eqf: "(\<lambda>x. (case x of (l, r) \<Rightarrow> cell_of (columns df) canon r) = k)
      = (\<lambda>(l, r). cell_of (columns df) canon r = k)"
    by (simp add: fun_eq_iff)
  have len: "length F \<le> 1" using l1 unfolding F_def eqf .
  have v: "valor_extra df canon e k = (case F of [] \<Rightarrow> NaN | (l, r) # _ \<Rightarrow> celda (columns df) e r)"
    by (simp add: valor_extra_def F_def)
  show ?thesis
  proof (cases F)
    case Nil
    then show ?thesis unfolding m by (simp add: v)
  next
    case (Cons x xs)
    with len have xs: "xs = []" by simp
    obtain l r where lr: "x = (l, r)" by (cases x)
    from ne show ?thesis unfolding m by (simp add: v Cons xs lr g_def)
  qed
qed

lemma concat_map_single: "concat (map (\<lambda>(l, r). [f r]) xs) = map (\<lambda>(l, r). f r) xs"
  by (induction xs) auto

lemma drop_duplicates_seleccion:
  assumes norm: "is_normalized canon df" and rect: "rectangular df" and ne: "e \<noteq> canon"
  defines "g \<equiv> (\<lambda>(l :: nat, r). (l, [celda (columns df) canon r, celda (columns df) e r]))"
  shows "drop_duplicates canon \<lparr>columns = [canon, e], rows = map g (rows df)\<rparr>
       = \<lparr>columns = [canon, e], rows = map g (rows df)\<rparr>"
proof -
  from norm have cnt: "count_list (columns df) canon = 1"
    and dist: "distinct (map (\<lambda>(l, r). cells_named (columns df) canon r) (rows df))"
    by (simp_all add: is_normalized_def)
  define key where "key = (\<lambda>(l :: nat, r). cells_named [canon, e] canon r)"
  have km: "map key (map g (rows df)) = map (\<lambda>(l, r). cells_named (columns df) canon r) (rows df)"
    unfolding map_map
  proof (rule map_cong [OF refl])
    fix x assume x: "x \<in> set (rows df)"
    obtain l r where lr: "x = (l, r)" by (cases x)
    from rectangularD [OF rect] x lr have len: "length r = length (columns df)" by simp
    from ne have a: "\<And>u v. cells_named [canon, e] canon [u, v] = [u]"
      by (simp add: cells_named_def)
    show "(key \<circ> g) x = (case x of (l, r) \<Rightarrow> cells_named (columns df) canon r)"
      by (simp add: lr key_def g_def cells_named_celda [OF cnt len] a)
  qed
  have "distinct (map key (map g (rows df)))" unfolding km by (rule dist)
  then have "keep_first key [] (map g (rows df)) = map g (rows df)"
    by (rule keep_first_id) simp
  then show ?thesis by (simp add: drop_duplicates_def key_def)
qed

lemma merge_step:
  assumes norm: "is_normalized canon df" and rect: "rectangular df"
    and cnt_e: "count_list (columns df) e = 1" and ne: "e \<noteq> canon" and nn: "nuevo \<noteq> canon"
    and tcnt: "count_list (columns tabla) canon = 1" and fresh: "nuevo \<notin> set (columns tabla)"
  shows "(case select_columns [canon, e] df of
            Inl er \<Rightarrow> Inl er
          | Inr seleccion \<Rightarrow> merge_left tabla (rename e nuevo (drop_duplicates canon seleccion)) canon)
       = Inr \<lparr>columns = columns tabla @ [nuevo],
              rows = zip [0..<length (rows tabla)]
                       (map (\<lambda>(l, r). r @ [valor_extra df canon e (cell_of (columns tabla) canon r)]) (rows tabla))\<rparr>"
proof -
  define g where "g = (\<lambda>(l :: nat, r). (l, [celda (columns df) canon r, celda (columns df) e r]))"
  from norm have cnt: "count_list (columns df) canon = 1" by (simp add: is_normalized_def)
  have sel: "select_columns [canon, e] df = Inr \<lparr>columns = [canon, e], rows = map g (rows df)\<rparr>"
    unfolding g_def by (rule select_columns_pair [OF cnt cnt_e rect])
  have dd: "drop_duplicates canon \<lparr>columns = [canon, e], rows = map g (rows df)\<rparr>
       = \<lparr>columns = [canon, e], rows = map g (rows df)\<rparr>"
    unfolding g_def by (rule drop_duplicates_seleccion [OF norm rect ne])
  have ren: "rename e nuevo \<lparr>columns = [canon, e], rows = map g (rows df)\<rparr>
       = \<lparr>columns = [canon, nuevo], rows = map g (rows df)\<rparr>"
    using ne by (simp add: rename_def)
  from tcnt have tmem: "canon \<in> set (columns tabla)" by (rule count_list_one_mem)
  have izq: "map (\<lambda>n. if n \<noteq> canon \<and> n = nuevo then n @ ''_x'' else n) (columns tabla) = columns tabla"
    by (rule map_idI) (use fresh in auto)
  define U where "U = concat (map (\<lambda>(l, lr).
               case filter (\<lambda>(l', rr). cell_of [canon, nuevo] canon rr = cell_of (columns tabla) canon lr) (map g (rows df)) of
                 [] \<Rightarrow> [lr @ replicate (length [nuevo]) NaN]
               | ms \<Rightarrow> map (\<lambda>(l', rr). lr @ map snd (filter (\<lambda>(n, v). n \<noteq> canon) (zip [canon, nuevo] rr))) ms) (rows tabla))"
  have unidas: "U = map (\<lambda>(l, r). r @ [valor_extra df canon e (cell_of (columns tabla) canon r)]) (rows tabla)"
    unfolding U_def g_def merge_row [OF norm rect ne nn] by (rule concat_map_single)
  have ml: "merge_left tabla \<lparr>columns = [canon, nuevo], rows = map g (rows df)\<rparr> canon
      = Inr \<lparr>columns = columns tabla @ [nuevo], rows = zip [0..<length U] U\<rparr>"
    using tmem tcnt nn fresh
    by (simp add: merge_left_def Let_def izq U_def cong: list.case_cong)
  show ?thesis
    unfolding sel sum.case dd ren ml by (simp add: unidas)
qed

lemma cell_of_append:
  assumes "k \<in> set A" "length r = length A"
  shows "cell_of (A @ B) k (r @ s) = cell_of A k r"
proof -
  from assms have "k \<in> fst ` set (zip A r)"
    by (metis map_fst_zip set_map)
  then have "k \<in> dom (map_of (zip A r))" by (simp add: dom_map_of_conv_image_fst)
  then show ?thesis using assms(2) by (auto simp: cell_of_def map_add_dom_app_simps)
qed

lemma zip_index:
  "map fst xs = js \<Longrightarrow> zip js (map (\<lambda>(l, r). h r) xs) = map (\<lambda>(l, r). (l, h r)) xs"
  by (induction xs arbitrary: js) auto

lemma nuevo_nombre_canon: "nuevo_nombre x \<noteq> columna_estandar"
proof
  assume "nuevo_nombre x = columna_estandar"
  then have "set (nuevo_nombre x) = set columna_estandar" by simp
  moreover have "CHR ''_'' \<in> set (nuevo_nombre x)" by (simp add: nuevo_nombre_def)
  moreover have "CHR ''_'' \<notin> set columna_estandar" by (simp add: columna_estandar_def)
  ultimately show False by simp
qed

lemma columns_tabla_enriquecida [simp]:
  "columns (tabla_enriquecida fuentes canon extras tabla) = columns tabla @ map nuevo_nombre extras"
  by (simp add: tabla_enriquecida_def)

lemma index_tabla_enriquecida:
  "map fst (rows (tabla_enriquecida fuentes canon extras tabla)) = map fst (rows tabla)"
  by (simp add: tabla_enriquecida_def case_prod_beta comp_def)

lemma length_rows_tabla_enriquecida:
  "length (rows (tabla_enriquecida fuentes canon extras tabla)) = length (rows tabla)"
  by (simp add: tabla_enriquecida_def)

lemma rectangular_tabla_enriquecida:
  "rectangular tabla \<Longrightarrow> rectangular (tabla_enriquecida fuentes canon extras tabla)"
  by (auto simp: rectangular_def tabla_enriquecida_def list_all_iff)

lemma tabla_enriquecida_Cons:
  assumes rect: "rectangular tabla" and mem: "canon \<in> set (columns tabla)"
  shows "tabla_enriquecida fuentes canon resto (tabla_enriquecida fuentes canon [x] tabla)
       = tabla_enriquecida fuentes canon (x # resto) tabla"
proof -
  have "map (\<lambda>(l, r). (l, r @ map (\<lambda>y. columna_extra fuentes canon y (cell_of (columns tabla @ [nuevo_nombre x]) canon r)) resto))
          (map (\<lambda>(l, r). (l, r @ [columna_extra fuentes canon x (cell_of (columns tabla) canon r)])) (rows tabla))
      = map (\<lambda>(l, r). (l, r @ map (\<lambda>y. columna_extra fuentes canon y (cell_of (columns tabla) canon r)) (x # resto))) (rows tabla)"
    unfolding map_map
  proof (rule map_cong [OF refl])
    fix p assume p: "p \<in> set (rows tabla)"
    obtain l r where lr: "p = (l, r)" by (cases p)
    from rectangularD [OF rect] p lr have len: "length r = length (columns tabla)" by simp
    show "((\<lambda>(l, r). (l, r @ map (\<lambda>y. columna_extra fuentes canon y (cell_of (columns tabla @ [nuevo_nombre x]) canon r)) resto))
            \<circ> (\<lambda>(l, r). (l, r @ [columna_extra fuentes canon x (cell_of (columns tabla) canon r)]))) p
        = (case p of (l, r) \<Rightarrow> (l, r @ map (\<lambda>y. columna_extra fuentes canon y (cell_of (columns tabla) canon r)) (x # resto)))"
      by (simp add: lr cell_of_append [OF mem len])
  qed
  then show ?thesis by (simp add: tabla_enriquecida_def)
qed

lemma agregar_columnas_extra_closed:
  assumes "rectangular tabla" "count_list (columns tabla) columna_estandar = 1"
    and "map fst (rows tabla) = [0..<length (rows tabla)]"
    and "\<forall>x\<in>set extras. extra_valida fuentes columna_estandar x"
    and "distinct (map nuevo_nombre extras)"
    and "set (map nuevo_nombre extras) \<inter> set (columns tabla) = {}"
  shows "agregar_columnas_extra fuentes extras tabla
       = Inr (tabla_enriquecida fuentes columna_estandar extras tabla)"
  using assms
proof (induction extras arbitrary: tabla)
  case Nil
  show ?case by (simp add: tabla_enriquecida_def)
next
  case (Cons x resto)
  obtain n e where x: "x = (n, e)" by (cases x)
  from Cons.prems(4) have "extra_valida fuentes columna_estandar x" by simp
  then obtain df where df: "map_of fuentes n = Some df"
    and norm: "is_normalized columna_estandar df" and rect: "rectangular df"
    and cnt_e: "count_list (columns df) e = 1" and ne: "e \<noteq> columna_estandar"
    by (auto simp: extra_valida_def x split: option.splits)
  have nn: "n @ ''_'' @ e \<noteq> columna_estandar"
    using nuevo_nombre_canon [of x] by (simp add: nuevo_nombre_def x)
  from Cons.prems(6) have fresh: "n @ ''_'' @ e \<notin> set (columns tabla)"
    by (simp add: nuevo_nombre_def x)
  from Cons.prems(2) have mem: "columna_estandar \<in> set (columns tabla)" by (rule count_list_one_mem)
  define t1 where "t1 = tabla_enriquecida fuentes columna_estandar [x] tabla"
  have "zip [0..<length (rows tabla)]
          (map (\<lambda>(l, r). r @ [valor_extra df columna_estandar e (cell_of (columns tabla) columna_estandar r)]) (rows tabla))
      = map (\<lambda>(l, r). (l, r @ [valor_extra df columna_estandar e (cell_of (columns tabla) columna_estandar r)])) (rows tabla)"
    by (rule zip_index [OF Cons.prems(3)])
  then have step: "(case select_columns [columna_estandar, e] df of
            Inl er \<Rightarrow> Inl er
          | Inr seleccion \<Rightarrow> merge_left tabla (rename e (n @ ''_'' @ e) (drop_duplicates columna_estandar seleccion)) columna_estandar)
       = Inr t1"
    unfolding merge_step [OF norm rect cnt_e ne nn Cons.prems(2) fresh]
    by (simp add: t1_def tabla_enriquecida_def x nuevo_nombre_def columna_extra_def df)
  have r1: "rectangular t1" unfolding t1_def by (rule rectangular_tabla_enriquecida [OF Cons.prems(1)])
  have c1: "count_list (columns t1) columna_estandar = 1"
    using Cons.prems(2) nuevo_nombre_canon [of x] by (simp add: t1_def)
  have i1: "map fst (rows t1) = [0..<length (rows t1)]"
    unfolding t1_def index_tabla_enriquecida length_rows_tabla_enriquecida by (rule Cons.prems(3))
  have v1: "\<forall>x\<in>set resto. extra_valida fuentes columna_estandar x" using Cons.prems(4) by simp
  have d1: "distinct (map nuevo_nombre resto)" using Cons.prems(5) by simp
  have f1: "set (map nuevo_nombre resto) \<inter> set (columns t1) = {}"
    using Cons.prems(5,6) by (auto simp: t1_def)
  have ih: "agregar_columnas_extra fuentes resto t1
       = Inr (tabla_enriquecida fuentes columna_estandar resto t1)"
    by (rule Cons.IH [OF r1 c1 i1 v1 d1 f1])
  have "agregar_columnas_extra fuentes (x # resto) tabla = agregar_columnas_extra fuentes resto t1"
  proof (cases "select_columns [columna_estandar, e] df")
    case (Inl er)
    with step show ?thesis by simp
  next
    case (Inr seleccion)
    with step show ?thesis by (simp add: x df Let_def)
  qed
  also note ih
  also have "tabla_enriquecida fuentes columna_estandar resto t1
      = tabla_enriquecida fuentes columna_estandar (x # resto) tabla"
    unfolding t1_def by (rule tabla_enriquecida_Cons [OF Cons.prems(1) mem])
  finally show ?case .
qed

section \<open>Claims about the normalizer\<close>



text \<open>
  C7. Called on the table at a valid address, \<open>limpiar_dataframe\<close> raises the
  \<open>ValueError\<close> of the missing column, whose message quotes the column name, exactly
  when the table has no column of that exact name; and whatever the outcome, every table
  that existed before the call, the input among them, is what it was.
\<close>

theorem limpiar_dataframe_missing_column:
  assumes "df < length h"
  shows "(fst (limpiar_dataframe_heap h df c canon) = Inl (ValueError (missing_column_message c))
            \<longleftrightarrow> c \<notin> set (columns (h ! df)))
       \<and> ((\<exists>msg. fst (limpiar_dataframe_heap h df c canon) = Inl (ValueError msg))
            \<longleftrightarrow> c \<notin> set (columns (h ! df)))
       \<and> take (length h) (snd (limpiar_dataframe_heap h df c canon)) = h
       \<and> snd (limpiar_dataframe_heap h df c canon) ! df = h ! df"
  using assms by (simp add: limpiar_dataframe_heap_result nth_append)

theorem limpiar_dataframe_missing_column_witness:
  "fst (limpiar_dataframe_heap [tabla_sib] 0 ''scientificName'' ''scientificName'')
     = Inl (ValueError (missing_column_message ''scientificName''))
   \<and> ''scientificName'' \<notin> set (columns ([tabla_sib] ! 0))
   \<and> fst (limpiar_dataframe_heap [tabla_sib] 0 ''especie'' ''scientificName'')
       \<noteq> Inl (ValueError (missing_column_message ''especie''))
   \<and> snd (limpiar_dataframe_heap [tabla_sib] 0 ''especie'' ''scientificName'') ! 0 = tabla_sib"
  using limpiar_dataframe_missing_column [of 0 "[tabla_sib]" "''scientificName''" "''scientificName''"]
    limpiar_dataframe_missing_column [of 0 "[tabla_sib]" "''especie''" "''scientificName''"]
  by (simp add: tabla_sib_def)

text \<open>
  C2, at an input where the code fails. The upload has the columns \<open>species\<close> and
  \<open>scientificName\<close>, and the user names \<open>species\<close> as the species column. The column
  exists, so no \<open>ValueError\<close> is raised; the renaming gives two columns labelled
  \<open>scientificName\<close>, and the call ends in an \<open>AttributeError\<close> instead of returning a
  normalized table.
\<close>

theorem limpiar_dataframe_canonical_label_taken:
  "''species'' \<in> set (columns tabla_gbif)
   \<and> limpiar_dataframe tabla_gbif ''species'' ''scientificName'' = Inl (AttributeError ''str'')"
  by code_simp



section \<open>Claims about the reconciliation engine\<close>

lemma construir_ejemplo:
  "construir_interseccion fuentes_ejemplo ''scientificName'' = Inr (species_sets_ejemplo, tabla_ejemplo)"
  by code_simp

lemma normalizadas_ejemplo: "todas_normalizadas ''scientificName'' fuentes_ejemplo"
  by code_simp

lemma normalizadas_disjuntas: "todas_normalizadas ''scientificName'' fuentes_disjuntas"
  by code_simp

lemma especies_sib: "especies tabla_sib_limpia ''scientificName'' = [Str ''felis catus'', Str ''nan'', Str ''canis lupus'']"
  by code_simp

lemma especies_iucn: "especies tabla_iucn_limpia ''scientificName'' = [Str ''canis lupus'', Str ''nan'', Str ''zorro'']"
  by code_simp

lemma especies_gbif: "especies tabla_gbif_limpia ''scientificName'' = [Str ''puma concolor'']"
  by code_simp

lemma disjuntas_sin_comunes:
  "\<forall>e. fuentes_con (map (\<lambda>(n, df). (n, especies df ''scientificName'')) fuentes_disjuntas) e < 2"
  by (auto simp: fuentes_disjuntas_def especies_sib especies_gbif fuentes_con_def)

lemma todas_normalizadas_iff:
  "todas_normalizadas canon fuentes \<longleftrightarrow> (\<forall>p \<in> set fuentes. is_normalized canon (snd p))"
  by (simp add: todas_normalizadas_def list_all_iff)

text \<open>
  C1, as stated, fails when a source is called \<open>num_fuentes\<close>: the assignment of that
  source's 0/1 flag overwrites the count in the row. With the sources \<open>SIB\<close>, \<open>IUCN\<close>
  and \<open>num_fuentes\<close>, the species \<open>canis lupus\<close> is in two species sets, and its row
  holds 0 under \<open>num_fuentes\<close>.
\<close>

theorem construir_interseccion_counts_counterexample:
  "todas_normalizadas ''scientificName'' fuentes_colision \<and> fuentes_colision \<noteq> []
   \<and> construir_interseccion fuentes_colision ''scientificName'' = Inr (species_sets_colision, tabla_colision)
   \<and> (0, [Str ''canis lupus'', IntV 0, IntV 1, IntV 1]) \<in> set (rows tabla_colision)
   \<and> cell_of (columns tabla_colision) ''scientificName'' [Str ''canis lupus'', IntV 0, IntV 1, IntV 1] = Some (Str ''canis lupus'')
   \<and> cell_of (columns tabla_colision) ''num_fuentes'' [Str ''canis lupus'', IntV 0, IntV 1, IntV 1] = Some (IntV 0)
   \<and> fuentes_con species_sets_colision (Str ''canis lupus'') = 2"
  by code_simp

text \<open>
  C1, amended. For a non-empty dictionary of normalized tables whose source names are
  neither the canonical column name nor \<open>num_fuentes\<close> (and the canonical name is not
  \<open>num_fuentes\<close>), \<open>construir_interseccion\<close> returns the species sets of the sources
  and a table in which every row holds a species \<open>e\<close>, under \<open>num_fuentes\<close> the number
  of sources whose species set has \<open>e\<close>, which is the sum of the row's 0/1 cells and at
  least 2, and under every source 1 or 0 as \<open>e\<close> is in its set or not. A species in fewer
  than 2 sources has no row, and a species in 2 or more has one.
\<close>

theorem construir_interseccion_counts:
  assumes "\<forall>p \<in> set fuentes. is_normalized canon (snd p)" and "fuentes \<noteq> []"
    and "distinct (map fst fuentes)"
    and "canon \<noteq> ''num_fuentes''" and "canon \<notin> fst ` set fuentes" and "''num_fuentes'' \<notin> fst ` set fuentes"
  shows "\<exists>S tabla. S = map (\<lambda>(n, df). (n, especies df canon)) fuentes \<and>
     construir_interseccion fuentes canon = Inr (S, tabla) \<and>
     (\<forall>lr \<in> set (rows tabla). \<exists>e.
         cell_of (columns tabla) canon (snd lr) = Some e \<and>
         cell_of (columns tabla) ''num_fuentes'' (snd lr) = Some (IntV (int (fuentes_con S e))) \<and>
         suma_presencia (columns tabla) (map fst fuentes) (snd lr) = int (fuentes_con S e) \<and>
         2 \<le> fuentes_con S e \<and>
         (\<forall>nc \<in> set S. cell_of (columns tabla) (fst nc) (snd lr) = Some (IntV (if e \<in> set (snd nc) then 1 else 0)))) \<and>
     (\<forall>e. fuentes_con S e < 2 \<longrightarrow> (\<forall>lr \<in> set (rows tabla). cell_of (columns tabla) canon (snd lr) \<noteq> Some e)) \<and>
     (\<forall>e. 2 \<le> fuentes_con S e \<longrightarrow> (\<exists>lr \<in> set (rows tabla). cell_of (columns tabla) canon (snd lr) = Some e))"
  using assms by (rule construir_interseccion_rows)

theorem construir_interseccion_counts_witness:
  "\<exists>S tabla. S = map (\<lambda>(n, df). (n, especies df ''scientificName'')) fuentes_ejemplo \<and>
     construir_interseccion fuentes_ejemplo ''scientificName'' = Inr (S, tabla) \<and> tabla = tabla_ejemplo \<and>
     (\<forall>lr \<in> set (rows tabla). \<exists>e.
         cell_of (columns tabla) ''scientificName'' (snd lr) = Some e \<and>
         cell_of (columns tabla) ''num_fuentes'' (snd lr) = Some (IntV (int (fuentes_con S e))) \<and>
         suma_presencia (columns tabla) (map fst fuentes_ejemplo) (snd lr) = int (fuentes_con S e) \<and>
         2 \<le> fuentes_con S e)"
proof -
  have h1: "\<forall>p \<in> set fuentes_ejemplo. is_normalized ''scientificName'' (snd p)"
    using normalizadas_ejemplo by (simp only: todas_normalizadas_iff)
  have h2: "fuentes_ejemplo \<noteq> []" and h3: "distinct (map fst fuentes_ejemplo)"
    and h4: "''scientificName'' \<noteq> ''num_fuentes''"
    and h5: "''scientificName'' \<notin> fst ` set fuentes_ejemplo"
    and h6: "''num_fuentes'' \<notin> fst ` set fuentes_ejemplo"
    by (simp_all add: fuentes_ejemplo_def)
  from construir_interseccion_counts [OF h1 h2 h3 h4 h5 h6] construir_ejemplo
  show ?thesis by fastforce
qed



text \<open>
  C10. For a non-empty dictionary of normalized tables in which no species is in the
  species sets of two sources, \<open>construir_interseccion\<close> returns the species sets and the
  table with no row and no column; for the empty dictionary it returns the table with
  no row and the canonical column.
\<close>

theorem construir_interseccion_no_shared_species:
  assumes "\<forall>p \<in> set fuentes. is_normalized canon (snd p)" and "fuentes \<noteq> []"
    and "distinct (map fst fuentes)"
    and "\<forall>e. fuentes_con (map (\<lambda>(n, df). (n, especies df canon)) fuentes) e < 2"
  shows "construir_interseccion fuentes canon
           = Inr (map (\<lambda>(n, df). (n, especies df canon)) fuentes, \<lparr>columns = [], rows = []\<rparr>)
       \<and> construir_interseccion [] canon = Inr ([], \<lparr>columns = [canon], rows = []\<rparr>)"
proof -
  define S where "S = map (\<lambda>(n, df). (n, especies df canon)) fuentes"
  from assms(1) have cnt: "\<forall>p \<in> set fuentes. count_list (columns (snd p)) canon = 1"
    by (simp add: is_normalized_count)
  have ok: "construir_interseccion fuentes canon = Inr (S, tabla_interseccion_de canon S)"
    using construir_interseccion_ok [OF cnt assms(2)]
    by (simp add: species_sets_distinct_names [OF assms(3)] S_def)
  from assms(4) have "filas_de canon S (union_all (map snd S)) = []"
    by (simp add: filas_de_Nil S_def)
  then have "tabla_interseccion_de canon S = \<lparr>columns = [], rows = []\<rparr>"
    by (rule tabla_interseccion_de_empty)
  with ok show ?thesis by (simp add: S_def construir_interseccion_empty)
qed

theorem construir_interseccion_no_shared_species_witness:
  "construir_interseccion fuentes_disjuntas ''scientificName''
     = Inr ([(''SIB'', [Str ''felis catus'', Str ''nan'', Str ''canis lupus'']), (''GBIF'', [Str ''puma concolor''])],
            \<lparr>columns = [], rows = []\<rparr>)
   \<and> construir_interseccion [] ''scientificName'' = Inr ([], \<lparr>columns = [''scientificName''], rows = []\<rparr>)"
proof -
  have h1: "\<forall>p \<in> set fuentes_disjuntas. is_normalized ''scientificName'' (snd p)"
    using normalizadas_disjuntas by (simp only: todas_normalizadas_iff)
  have h2: "fuentes_disjuntas \<noteq> []" and h3: "distinct (map fst fuentes_disjuntas)"
    by (simp_all add: fuentes_disjuntas_def)
  from construir_interseccion_no_shared_species [OF h1 h2 h3 disjuntas_sin_comunes]
  show ?thesis by (simp add: fuentes_disjuntas_def especies_sib especies_gbif)
qed

section \<open>The missing species name\<close>



section \<open>Claims about the enrichment\<close>

text \<open>
  C4, at an input where the code fails. Two uploads share no species and the first one
  declares the extra column \<open>estado\<close>, which its cleaned table has. The intersection
  table is \<open>pd.DataFrame([])\<close>, a table without columns, and the merge on
  \<open>scientificName\<close> raises \<open>KeyError\<close>: the run ends in the error handler and there is no
  final table. With no extra column declared the same uploads give the final table of no
  rows.
\<close>

theorem enrichment_without_shared_species:
  "sources_info_de cards_disjuntas = sources_disjuntas
   \<and> procesar sources_disjuntas = Inl (KeyError ''scientificName'')
   \<and> procesar sources_disjuntas_sin_extra
       = Inr ([], [(''SIB'', [Str ''felis catus'', Str ''nan'', Str ''canis lupus'']),
                   (''GBIF'', [Str ''puma concolor''])],
              \<lparr>columns = [], rows = []\<rparr>)"
  by code_simp

end
